theory Spec2Isabelle
  imports Main
begin

section \<open>Strings\<close>

text \<open>
  A Python \<open>str\<close> is modelled by \<^typ>\<open>string\<close>, the UTF-8 bytes of its text: an ASCII
  character is one \<^typ>\<open>char\<close>, the arrow U+2192 of the first FAQ answer is the three
  bytes \<open>E2 86 92\<close>. UTF-8 is self-synchronising, so one text occurs inside another exactly
  when its bytes occur inside the other's bytes.

  \<open>str.lower\<close> and \<open>str.capitalize\<close> are modelled on the ASCII letters: \<open>A\<close> .. \<open>Z\<close> are
  mapped to \<open>a\<close> .. \<open>z\<close> and every other byte is kept. This is what Python does on every
  string that has no cased character outside ASCII, in particular on every string of the
  two tables below and on the three role names.
\<close>

definition newline :: char where
  "newline = CHR 0x0A"

definition arrow :: string where
  "arrow = [CHR 0xE2, CHR 0x86, CHR 0x92]"

definition cross_mark :: string where
  "cross_mark = [CHR 0xE2, CHR 0x9D, CHR 0x8C]"

definition lower_char :: "char \<Rightarrow> char" where
  "lower_char c =
     (if 65 \<le> (of_char c :: nat) \<and> (of_char c :: nat) \<le> 90
      then char_of (of_char c + (32 :: nat)) else c)"

definition upper_char :: "char \<Rightarrow> char" where
  "upper_char c =
     (if 97 \<le> (of_char c :: nat) \<and> (of_char c :: nat) \<le> 122
      then char_of (of_char c - (32 :: nat)) else c)"

definition lower :: "string \<Rightarrow> string" where
  "lower s = map lower_char s"

text \<open>\<open>s.capitalize()\<close>: the first character in upper case, the rest in lower case.\<close>

fun capitalize :: "string \<Rightarrow> string" where
  "capitalize [] = []"
| "capitalize (c # cs) = upper_char c # map lower_char cs"

text \<open>\<open>s.startswith(p)\<close> and the substring test \<open>a in b\<close> of two strings.\<close>

fun startswith :: "string \<Rightarrow> string \<Rightarrow> bool" where
  "startswith s [] = True"
| "startswith [] (p # ps) = False"
| "startswith (c # cs) (p # ps) = (c = p \<and> startswith cs ps)"

fun str_in :: "string \<Rightarrow> string \<Rightarrow> bool" where
  "str_in a [] = (a = [])"
| "str_in a (c # cs) = (startswith (c # cs) a \<or> str_in a cs)"

section \<open>Mock data\<close>

record faq =
  question :: string
  answer :: string

record order =
  order_id :: string
  status :: string
  eta :: string

definition faq_data :: "faq list" where
  "faq_data =
    [\<lparr>question = ''How can I reset my password?'',
      answer = ''Go to Account Settings '' @ arrow @ '' Security '' @ arrow @ '' Reset Password.''\<rparr>,
     \<lparr>question = ''What is the refund policy?'',
      answer = ''Refunds are available within 30 days of purchase.''\<rparr>,
     \<lparr>question = ''Do you offer international shipping?'',
      answer = ''Yes, we ship worldwide.''\<rparr>]"

definition order_data :: "order list" where
  "order_data =
    [\<lparr>order_id = ''ORD123'', status = ''Shipped'', eta = ''2025-10-28''\<rparr>,
     \<lparr>order_id = ''ORD124'', status = ''Delivered'', eta = ''2025-10-22''\<rparr>,
     \<lparr>order_id = ''ORD125'', status = ''Processing'', eta = ''2025-10-27''\<rparr>]"

section \<open>Tool functions\<close>

text \<open>
  The \<open>for\<close> loops of \<open>lookup_faq\<close> and \<open>get_order_status\<close> are recursions over the table;
  the \<open>return\<close> inside the loop ends the recursion.
\<close>

fun lookup_faq_loop :: "faq list \<Rightarrow> string \<Rightarrow> string" where
  "lookup_faq_loop [] query = ''Sorry, I couldn't find that information.''"
| "lookup_faq_loop (f # rest) query =
     (if str_in (lower query) (lower (question f)) \<or> str_in (lower query) (lower (answer f))
      then answer f
      else lookup_faq_loop rest query)"

definition lookup_faq :: "string \<Rightarrow> string" where
  "lookup_faq query = lookup_faq_loop faq_data query"

fun get_order_status_loop :: "order list \<Rightarrow> string \<Rightarrow> string" where
  "get_order_status_loop [] oid = ''Order ID '' @ oid @ '' not found.''"
| "get_order_status_loop (r # rest) oid =
     (if lower (order_id r) = lower oid
      then ''Order '' @ oid @ '' is '' @ status r @ '' and will arrive by '' @ eta r @ ''.''
      else get_order_status_loop rest oid)"

definition get_order_status :: "string \<Rightarrow> string" where
  "get_order_status oid = get_order_status_loop order_data oid"

section \<open>Values that cross the program's boundary\<close>

text \<open>
  The exceptions the chat interaction can meet, each with the text \<open>str(e)\<close> gives:
  a failure of the completion call (network, authentication, a rejected request) carries its
  own text, as does a \<open>JSONDecodeError\<close>; an \<open>AttributeError\<close> names the type of the
  object and the attribute it lacks.
\<close>

datatype exn =
    APIError string
  | IndexError
  | JSONDecodeError string
  | AttributeError string string

definition squote :: char where
  "squote = CHR 0x27"

fun str_exn :: "exn \<Rightarrow> string" where
  "str_exn (APIError m) = m"
| "str_exn IndexError = ''list index out of range''"
| "str_exn (JSONDecodeError m) = m"
| "str_exn (AttributeError t a) =
     [squote] @ t @ [squote] @ '' object has no attribute '' @ [squote] @ a @ [squote]"

text \<open>
  The values \<open>json.loads\<close> returns. A dict is an association list read with
  \<^const>\<open>map_of\<close>; the value of a float is never looked at, only its type.
\<close>

datatype json =
    JNull
  | JBool bool
  | JInt int
  | JFloat
  | JStr string
  | JList "json list"
  | JDict "(string \<times> json) list"

fun type_name :: "json \<Rightarrow> string" where
  "type_name JNull = ''NoneType''"
| "type_name (JBool b) = ''bool''"
| "type_name (JInt n) = ''int''"
| "type_name JFloat = ''float''"
| "type_name (JStr s) = ''str''"
| "type_name (JList xs) = ''list''"
| "type_name (JDict kv) = ''dict''"

text \<open>\<open>func_args.get(key, default)\<close>: only a dict has the method \<open>get\<close>.\<close>

fun dict_get :: "json \<Rightarrow> string \<Rightarrow> json \<Rightarrow> exn + json" where
  "dict_get (JDict kv) key dflt = Inr (case map_of kv key of None \<Rightarrow> dflt | Some v \<Rightarrow> v)"
| "dict_get v key dflt = Inl (AttributeError (type_name v) ''get'')"

text \<open>
  The two tool functions called with whatever value the arguments hold. Both tables are
  non-empty, so the first thing either function does is \<open>.lower()\<close> on its argument,
  which only a string has.
\<close>

fun call_lookup_faq :: "json \<Rightarrow> exn + string" where
  "call_lookup_faq (JStr query) = Inr (lookup_faq query)"
| "call_lookup_faq v = Inl (AttributeError (type_name v) ''lower'')"

fun call_get_order_status :: "json \<Rightarrow> exn + string" where
  "call_get_order_status (JStr oid) = Inr (get_order_status oid)"
| "call_get_order_status v = Inl (AttributeError (type_name v) ''lower'')"

text \<open>
  A tool call of a response. The field \<open>tc_arguments\<close> holds what
  \<open>json.loads(tc.function.arguments)\<close> makes of the argument text: \<open>Inl\<close> the exception
  for a text that does not decode (the empty text, a truncated object), \<open>Inr\<close> the decoded
  value otherwise.
\<close>

record tool_call =
  tc_id :: string
  tc_name :: string
  tc_arguments :: "exn + json"

text \<open>The message of a completion (\<open>choices[i].message\<close>): the two attributes the program reads.\<close>

record completion_message =
  content :: "string option"
  tool_calls :: "tool_call list option"

text \<open>
  The entries of a message list: the dict \<open>{"role": r, "content": c}\<close>, the tool-result
  dict \<open>{"role": "tool", "tool_call_id": i, "content": c}\<close>, and the message object of a
  response, put into the follow-up request as it is.
\<close>

datatype message =
    Dict string string
  | ToolDict string string
  | Obj completion_message

fun role_of :: "message \<Rightarrow> string" where
  "role_of (Dict r c) = r"
| "role_of (ToolDict i c) = ''tool''"
| "role_of (Obj m) = ''assistant''"

section \<open>Tool schema\<close>

record tool_schema =
  fn_name :: string
  fn_description :: string
  fn_properties :: "(string \<times> string) list"
  fn_required :: "string list"

definition tools :: "tool_schema list" where
  "tools =
    [\<lparr>fn_name = ''lookup_faq'', fn_description = ''Retrieve an FAQ answer.'',
      fn_properties = [(''query'', ''string'')], fn_required = [''query'']\<rparr>,
     \<lparr>fn_name = ''get_order_status'', fn_description = ''Retrieve order status by ID.'',
      fn_properties = [(''order_id'', ''string'')], fn_required = [''order_id'']\<rparr>]"

text \<open>The keyword arguments of \<open>client.chat.completions.create\<close>; \<open>tools_arg = None\<close> when
  the call passes no \<open>tools\<close>.\<close>

record request =
  model :: string
  msgs :: "message list"
  tools_arg :: "tool_schema list option"

section \<open>The world outside\<close>

text \<open>
  The completion service and the clock are not part of the program. Both are taken as
  parameters acting on a world \<open>'w\<close> of their own: a call of the service answers with an
  exception or with the messages of the completion's choices, and may answer differently
  the next time; reading the clock gives the local time.
\<close>

record datetime =
  year :: nat
  month :: nat
  day :: nat
  hour :: nat
  minute :: nat
  second :: nat

record 'w env =
  create :: "request \<Rightarrow> 'w \<Rightarrow> (exn + completion_message list) \<times> 'w"
  now :: "'w \<Rightarrow> datetime \<times> 'w"

text \<open>
  \<open>strftime("%Y-%m-%d %H:%M:%S")\<close>. A \<open>datetime\<close> has its year in 1 .. 9999, its month in
  1 .. 12 and so on, so two digits (four for the year) show each field in full. The year
  is padded to four digits, which is what every platform prints from the year 1000 on.
\<close>

definition digit_char :: "nat \<Rightarrow> char" where
  "digit_char d = char_of (48 + d)"

definition pad2 :: "nat \<Rightarrow> string" where
  "pad2 n = [digit_char (n div 10 mod 10), digit_char (n mod 10)]"

definition pad4 :: "nat \<Rightarrow> string" where
  "pad4 n = [digit_char (n div 1000 mod 10), digit_char (n div 100 mod 10),
             digit_char (n div 10 mod 10), digit_char (n mod 10)]"

definition strftime :: "datetime \<Rightarrow> string" where
  "strftime dt =
     pad4 (year dt) @ ''-'' @ pad2 (month dt) @ ''-'' @ pad2 (day dt) @ '' '' @
     pad2 (hour dt) @ '':'' @ pad2 (minute dt) @ '':'' @ pad2 (second dt)"

section \<open>Session state and conversation logging\<close>

text \<open>
  What a run of the script reads and changes: the two lists of \<open>st.session_state\<close>, the
  conversation log as the sequence of strings written to it (the writes of one run of the
  script all go to the file named at the start of that run), the texts shown with
  \<open>st.error\<close>, the requests sent to the completion service, and the world. Writing to
  the log file is taken to succeed. The diagnostic logger (\<open>logger.exception\<close>) writes
  to a stream of its own that nothing here reads; it is left out.
\<close>

record 'w state =
  messages :: "message list"
  display_messages :: "message list"
  log_file :: "string list"
  errors_shown :: "string list"
  requests :: "request list"
  world :: 'w

definition initial_messages :: "message list" where
  "initial_messages =
    [Dict ''system'' ''You are a polite, accurate customer support assistant.'',
     Dict ''user'' ''How can I reset my password?'',
     Dict ''assistant'' (''You can reset it under Account Settings '' @ arrow @ '' Security.'')]"

definition init_state :: "'w \<Rightarrow> 'w state" where
  "init_state w =
    \<lparr>messages = initial_messages, display_messages = [], log_file = [],
     errors_shown = [], requests = [], world = w\<rparr>"

definition log_line :: "datetime \<Rightarrow> string \<Rightarrow> string \<Rightarrow> string" where
  "log_line dt role text =
     ''['' @ strftime dt @ ''] '' @ capitalize role @ '': '' @ text @ [newline]"

definition log_conversation :: "'w env \<Rightarrow> string \<Rightarrow> string \<Rightarrow> 'w state \<Rightarrow> 'w state" where
  "log_conversation env role text s =
     (case now env (world s) of
        (ts, w) \<Rightarrow> s\<lparr>log_file := log_file s @ [log_line ts role text], world := w\<rparr>)"

section \<open>Chat interaction\<close>

text \<open>
  The body of the \<open>try\<close> block returns the exception that leaves it, if any, together
  with the state as the statements before the exception left it.
\<close>

definition call_create ::
  "'w env \<Rightarrow> request \<Rightarrow> 'w state \<Rightarrow> (exn + completion_message list) \<times> 'w state" where
  "call_create env req s =
     (case create env req (world s) of
        (r, w) \<Rightarrow> (r, s\<lparr>requests := requests s @ [req], world := w\<rparr>))"

text \<open>\<open>completion.choices[0].message\<close>\<close>

fun first_choice :: "completion_message list \<Rightarrow> exn + completion_message" where
  "first_choice [] = Inl IndexError"
| "first_choice (m # ms) = Inr m"

text \<open>\<open>c or d\<close> for an optional string \<open>c\<close>: \<open>None\<close> and the empty string are false.\<close>

fun or_else :: "string option \<Rightarrow> string \<Rightarrow> string" where
  "or_else None d = d"
| "or_else (Some c) d = (if c = [] then d else c)"

text \<open>The three statements that end both branches: the reply goes to both lists and to the log.\<close>

definition append_reply :: "'w env \<Rightarrow> string \<Rightarrow> 'w state \<Rightarrow> 'w state" where
  "append_reply env reply s =
     log_conversation env ''assistant'' reply
       (s\<lparr>messages := messages s @ [Dict ''assistant'' reply],
          display_messages := display_messages s @ [Dict ''assistant'' reply]\<rparr>)"

text \<open>Step 2, for one tool call: decode the arguments, then dispatch on the name.\<close>

definition execute_tool :: "tool_call \<Rightarrow> exn + string" where
  "execute_tool tc =
     (case tc_arguments tc of
        Inl e \<Rightarrow> Inl e
      | Inr func_args \<Rightarrow>
          if tc_name tc = ''lookup_faq'' then
            (case dict_get func_args ''query'' (JStr []) of
               Inl e \<Rightarrow> Inl e
             | Inr v \<Rightarrow> call_lookup_faq v)
          else if tc_name tc = ''get_order_status'' then
            (case dict_get func_args ''order_id'' (JStr []) of
               Inl e \<Rightarrow> Inl e
             | Inr v \<Rightarrow> call_get_order_status v)
          else Inr ''Tool not implemented.'')"

text \<open>Step 3, for one tool call: the follow-up call with the tool result.\<close>

definition follow_up_messages ::
  "completion_message \<Rightarrow> tool_call \<Rightarrow> string \<Rightarrow> 'w state \<Rightarrow> message list" where
  "follow_up_messages message tc result s =
     messages s @ [Obj message, ToolDict (tc_id tc) result]"

definition follow_up ::
  "'w env \<Rightarrow> completion_message \<Rightarrow> tool_call \<Rightarrow> string \<Rightarrow> 'w state \<Rightarrow> exn option \<times> 'w state" where
  "follow_up env message tc result s =
     (case call_create env
             \<lparr>model = ''gpt-5'', msgs = follow_up_messages message tc result s,
              tools_arg = None\<rparr> s of
        (Inl e, s1) \<Rightarrow> (Some e, s1)
      | (Inr second_completion, s1) \<Rightarrow>
          (case first_choice second_completion of
             Inl e \<Rightarrow> (Some e, s1)
           | Inr final_msg \<Rightarrow>
               (None, append_reply env (or_else (content final_msg) result) s1)))"

definition handle_tool_call ::
  "'w env \<Rightarrow> completion_message \<Rightarrow> tool_call \<Rightarrow> 'w state \<Rightarrow> exn option \<times> 'w state" where
  "handle_tool_call env message tc s =
     (case execute_tool tc of
        Inl e \<Rightarrow> (Some e, s)
      | Inr result \<Rightarrow> follow_up env message tc result s)"

text \<open>\<open>for tc in tool_calls\<close>: an exception ends the loop.\<close>

fun tool_loop ::
  "'w env \<Rightarrow> completion_message \<Rightarrow> tool_call list \<Rightarrow> 'w state \<Rightarrow> exn option \<times> 'w state" where
  "tool_loop env message [] s = (None, s)"
| "tool_loop env message (tc # tcs) s =
     (case handle_tool_call env message tc s of
        (Some e, s1) \<Rightarrow> (Some e, s1)
      | (None, s1) \<Rightarrow> tool_loop env message tcs s1)"

text \<open>\<open>if tool_calls:\<close> is false for \<open>None\<close> and for the empty list.\<close>

fun requested :: "tool_call list option \<Rightarrow> tool_call list" where
  "requested None = []"
| "requested (Some tcs) = tcs"

definition try_block :: "'w env \<Rightarrow> 'w state \<Rightarrow> exn option \<times> 'w state" where
  "try_block env s =
     (case call_create env
             \<lparr>model = ''gpt-5'', msgs = messages s, tools_arg = Some tools\<rparr> s of
        (Inl e, s1) \<Rightarrow> (Some e, s1)
      | (Inr completion, s1) \<Rightarrow>
          (case first_choice completion of
             Inl e \<Rightarrow> (Some e, s1)
           | Inr message \<Rightarrow>
               if requested (tool_calls message) \<noteq> []
               then tool_loop env message (requested (tool_calls message)) s1
               else (None, append_reply env (or_else (content message) ''No response.'') s1)))"

text \<open>\<open>except Exception as e\<close>\<close>

definition except_block :: "'w env \<Rightarrow> exn \<Rightarrow> 'w state \<Rightarrow> 'w state" where
  "except_block env e s =
     log_conversation env ''error'' (str_exn e)
       (s\<lparr>errors_shown := errors_shown s @ [cross_mark @ '' API Error: '' @ str_exn e]\<rparr>)"

text \<open>The three statements before the \<open>try\<close>: the user's message goes to both lists and to the log.\<close>

definition turn_start :: "'w env \<Rightarrow> string \<Rightarrow> 'w state \<Rightarrow> 'w state" where
  "turn_start env user_input s =
     log_conversation env ''user'' user_input
       (s\<lparr>messages := messages s @ [Dict ''user'' user_input],
          display_messages := display_messages s @ [Dict ''user'' user_input]\<rparr>)"

definition user_turn :: "'w env \<Rightarrow> string \<Rightarrow> 'w state \<Rightarrow> 'w state" where
  "user_turn env user_input s =
     (case try_block env (turn_start env user_input s) of
        (None, s1) \<Rightarrow> s1
      | (Some e, s1) \<Rightarrow> except_block env e s1)"

text \<open>
  One run of the script with the value of the chat input: \<open>None\<close> when nothing was
  submitted. \<open>if user_input:\<close> is false for \<open>None\<close> and for the empty string.
\<close>

definition chat_interaction :: "'w env \<Rightarrow> string option \<Rightarrow> 'w state \<Rightarrow> 'w state" where
  "chat_interaction env user_input s =
     (case user_input of
        None \<Rightarrow> s
      | Some text \<Rightarrow> if text = [] then s else user_turn env text s)"

text \<open>
  The states of a session: it starts with the seeded lists, each run of the script is a
  chat interaction, and between two runs the world moves on by itself.
\<close>

inductive reachable :: "'w env \<Rightarrow> 'w state \<Rightarrow> bool" for env :: "'w env" where
  start: "reachable env (init_state w)"
| run: "reachable env s \<Longrightarrow> reachable env (chat_interaction env user_input s)"
| idle: "reachable env s \<Longrightarrow> reachable env (s\<lparr>world := w\<rparr>)"

section \<open>Notions used to state the properties\<close>

text \<open>A text contains a query case-insensitively; an FAQ entry qualifies for a query.\<close>

definition contains_ci :: "string \<Rightarrow> string \<Rightarrow> bool" where
  "contains_ci text q = (\<exists>p s. lower text = p @ lower q @ s)"

definition faq_matches :: "string \<Rightarrow> faq \<Rightarrow> bool" where
  "faq_matches q f = (contains_ci (question f) q \<or> contains_ci (answer f) q)"

text \<open>The log lines of a list of replies, and the line and the error box of an exception.\<close>

definition assistant_lines :: "datetime list \<Rightarrow> string list \<Rightarrow> string list" where
  "assistant_lines dts rs = map (\<lambda>(dt, r). log_line dt ''assistant'' r) (zip dts rs)"

definition error_lines :: "(datetime \<times> exn) option \<Rightarrow> string list" where
  "error_lines eo =
     (case eo of None \<Rightarrow> [] | Some (dt, e) \<Rightarrow> [log_line dt ''error'' (str_exn e)])"

definition error_boxes :: "(datetime \<times> exn) option \<Rightarrow> string list" where
  "error_boxes eo =
     (case eo of None \<Rightarrow> [] | Some (dt, e) \<Rightarrow> [cross_mark @ '' API Error: '' @ str_exn e])"

text \<open>From \<open>s\<close> to \<open>s'\<close> the replies \<open>rs\<close> were appended, logged at the times \<open>dts\<close>, and
  nothing else was changed in the two lists, the log and the error boxes.\<close>

definition replies_added :: "'w state \<Rightarrow> 'w state \<Rightarrow> string list \<Rightarrow> datetime list \<Rightarrow> bool" where
  "replies_added s s' rs dts \<longleftrightarrow>
     messages s' = messages s @ map (Dict ''assistant'') rs \<and>
     display_messages s' = display_messages s @ map (Dict ''assistant'') rs \<and>
     log_file s' = log_file s @ assistant_lines dts rs \<and>
     length dts = length rs \<and>
     errors_shown s' = errors_shown s"

text \<open>
  The follow-up requests of a run of tool calls that starts with the transcript \<open>ms\<close>,
  given for each call its result and the reply adopted for it: the request of a call
  carries the transcript as it stands then, the message with the tool calls and the
  tool result; the reply is in the transcript from the next call on.
\<close>

fun follow_up_requests ::
  "message list \<Rightarrow> completion_message \<Rightarrow> (tool_call \<times> string \<times> string) list \<Rightarrow> request list" where
  "follow_up_requests ms message [] = []"
| "follow_up_requests ms message ((tc, result, reply) # rest) =
     \<lparr>model = ''gpt-5'', msgs = ms @ [Obj message, ToolDict (tc_id tc) result],
      tools_arg = None\<rparr>
     # follow_up_requests (ms @ [Dict ''assistant'' reply]) message rest"

text \<open>The number of line breaks in a string, and the number of lines of the log.\<close>

definition line_breaks :: "string \<Rightarrow> nat" where
  "line_breaks text = length (filter (\<lambda>c. c = newline) text)"

definition lines_in :: "string list \<Rightarrow> nat" where
  "lines_in written = sum_list (map line_breaks written)"

text \<open>The shape \<open>YYYY-MM-DD HH:MM:SS\<close>.\<close>

definition is_digit :: "char \<Rightarrow> bool" where
  "is_digit c \<longleftrightarrow> 48 \<le> (of_char c :: nat) \<and> (of_char c :: nat) \<le> 57"

definition is_timestamp :: "string \<Rightarrow> bool" where
  "is_timestamp ts \<longleftrightarrow>
     length ts = 19 \<and>
     list_all (\<lambda>i. is_digit (ts ! i)) [0, 1, 2, 3, 5, 6, 8, 9, 11, 12, 14, 15, 17, 18] \<and>
     ts ! 4 = CHR ''-'' \<and> ts ! 7 = CHR ''-'' \<and> ts ! 10 = CHR '' '' \<and>
     ts ! 13 = CHR '':'' \<and> ts ! 16 = CHR '':''"

text \<open>The transcript without its system and tool entries.\<close>

definition without_bookkeeping :: "message list \<Rightarrow> message list" where
  "without_bookkeeping ms = filter (\<lambda>m. role_of m \<noteq> ''system'' \<and> role_of m \<noteq> ''tool'') ms"

text \<open>
  A completion service for the examples: its world is the list of the answers it still
  has to give, one per call; with none left the connection fails. The clock stands still.
\<close>

type_synonym script = "(exn + completion_message list) list"

definition scripted :: "script env" where
  "scripted =
    \<lparr>create = (\<lambda>req w. case w of
                  [] \<Rightarrow> (Inl (APIError ''Connection error.''), [])
                | r # rs \<Rightarrow> (r, rs)),
     now = (\<lambda>w. (\<lparr>year = 2025, month = 10, day = 21, hour = 9, minute = 5, second = 7\<rparr>, w))\<rparr>"

definition text_reply :: "string \<Rightarrow> exn + completion_message list" where
  "text_reply text = Inr [\<lparr>content = Some text, tool_calls = None\<rparr>]"

definition tool_request :: "tool_call list \<Rightarrow> completion_message" where
  "tool_request tcs = \<lparr>content = None, tool_calls = Some tcs\<rparr>"

definition order_call :: tool_call where
  "order_call =
    \<lparr>tc_id = ''call_1'', tc_name = ''get_order_status'',
     tc_arguments = Inr (JDict [(''order_id'', JStr ''ORD124'')])\<rparr>"

definition faq_call :: tool_call where
  "faq_call =
    \<lparr>tc_id = ''call_2'', tc_name = ''lookup_faq'',
     tc_arguments = Inr (JDict [(''query'', JStr ''refund'')])\<rparr>"

definition unknown_call :: tool_call where
  "unknown_call =
    \<lparr>tc_id = ''call_3'', tc_name = ''cancel_order'',
     tc_arguments = Inr (JDict [(''order_id'', JStr ''ORD123'')])\<rparr>"

definition faq_call_without_query :: tool_call where
  "faq_call_without_query =
    \<lparr>tc_id = ''call_4'', tc_name = ''lookup_faq'',
     tc_arguments = Inr (JDict [(''topic'', JStr ''password'')])\<rparr>"

definition order_call_without_id :: tool_call where
  "order_call_without_id =
    \<lparr>tc_id = ''call_5'', tc_name = ''get_order_status'', tc_arguments = Inr (JDict [])\<rparr>"

text \<open>An unknown tool whose argument text is empty: \<open>json.loads("")\<close> raises.\<close>

definition undecodable_call :: tool_call where
  "undecodable_call =
    \<lparr>tc_id = ''call_6'', tc_name = ''cancel_order'',
     tc_arguments = Inl (JSONDecodeError ''Expecting value: line 1 column 1 (char 0)'')\<rparr>"

text \<open>A call of \<open>lookup_faq\<close> whose argument text is \<open>null\<close>: it decodes, to \<open>None\<close>.\<close>

definition null_arguments_call :: tool_call where
  "null_arguments_call =
    \<lparr>tc_id = ''call_7'', tc_name = ''lookup_faq'', tc_arguments = Inr JNull\<rparr>"

text \<open>Sessions for the examples, named after what the service will do.\<close>

definition offline :: "script state" where
  "offline = init_state []"

definition two_calls_one_answer :: "script state" where
  "two_calls_one_answer =
     init_state [Inr [tool_request [order_call, faq_call]], text_reply ''It was delivered.'']"

text \<open>The session \<open>two_calls_one_answer\<close> in the turn "Where is ORD124?", when the first
  tool call has been handled and the second is about to be.\<close>

definition after_first_call :: "script state" where
  "after_first_call =
     snd (tool_loop scripted (tool_request [order_call, faq_call]) [order_call]
            (snd (call_create scripted
                    \<lparr>model = ''gpt-5'',
                     msgs = messages two_calls_one_answer @ [Dict ''user'' ''Where is ORD124?''],
                     tools_arg = Some tools\<rparr>
                    (turn_start scripted ''Where is ORD124?'' two_calls_one_answer))))"

definition fails_then_answers :: "script state" where
  "fails_then_answers = init_state [Inl (APIError ''Rate limit reached.''), text_reply ''Hi!'']"

definition two_calls_two_answers :: "script state" where
  "two_calls_two_answers =
     init_state [Inr [tool_request [order_call, faq_call]],
                 text_reply ''Your order ORD124 was delivered.'',
                 Inr [\<lparr>content = Some [], tool_calls = None\<rparr>]]"

definition asks_undecodable :: "script state" where
  "asks_undecodable =
     init_state [Inr [tool_request [undecodable_call]], text_reply ''I cannot do that.'']"

definition one_call_one_answer :: "script state" where
  "one_call_one_answer =
     init_state [Inr [tool_request [order_call]], text_reply ''It was delivered.'']"

definition one_call_no_answer :: "script state" where
  "one_call_no_answer = init_state [Inr [tool_request [order_call]]]"

definition answers_nothing :: "script state" where
  "answers_nothing = init_state [Inr [\<lparr>content = None, tool_calls = None\<rparr>]]"

definition two_answers :: "script state" where
  "two_answers =
     init_state [text_reply ''Your order ORD124 was delivered.'',
                 Inr [\<lparr>content = Some [], tool_calls = None\<rparr>]]"

section \<open>The two lookup functions\<close>

lemma startswith_iff: "startswith s p \<longleftrightarrow> (\<exists>t. s = p @ t)"
  by (induction s p rule: startswith.induct) auto

lemma str_in_iff: "str_in a b \<longleftrightarrow> (\<exists>p s. b = p @ a @ s)"
proof (induction b)
  case Nil
  then show ?case by simp
next
  case (Cons c cs)
  have "(\<exists>p s. c # cs = p @ a @ s) \<longleftrightarrow> (\<exists>t. c # cs = a @ t) \<or> (\<exists>p s. cs = p @ a @ s)"
  proof
    assume "\<exists>p s. c # cs = p @ a @ s"
    then obtain p s where e: "c # cs = p @ a @ s" by blast
    show "(\<exists>t. c # cs = a @ t) \<or> (\<exists>p s. cs = p @ a @ s)"
    proof (cases p)
      case Nil
      with e show ?thesis by auto
    next
      case (Cons d ds)
      with e have "cs = ds @ a @ s" by simp
      then show ?thesis by blast
    qed
  next
    assume "(\<exists>t. c # cs = a @ t) \<or> (\<exists>p s. cs = p @ a @ s)"
    then show "\<exists>p s. c # cs = p @ a @ s"
    proof
      assume "\<exists>t. c # cs = a @ t"
      then obtain t where "c # cs = [] @ a @ t" by auto
      then show ?thesis by blast
    next
      assume "\<exists>p s. cs = p @ a @ s"
      then obtain p s where "cs = p @ a @ s" by blast
      then have "c # cs = (c # p) @ a @ s" by simp
      then show ?thesis by blast
    qed
  qed
  with Cons show ?case by (simp add: startswith_iff)
qed

lemma str_in_empty: "str_in [] b"
  by (cases b) simp_all

lemma faq_matches_code:
  "faq_matches q f \<longleftrightarrow>
     str_in (lower q) (lower (question f)) \<or> str_in (lower q) (lower (answer f))"
  by (simp add: faq_matches_def contains_ci_def str_in_iff)

lemma lookup_faq_loop_find:
  "lookup_faq_loop fs q =
     (case find (faq_matches q) fs of
        None \<Rightarrow> ''Sorry, I couldn't find that information.''
      | Some f \<Rightarrow> answer f)"
  by (induction fs) (simp_all add: faq_matches_code)

text \<open>
  C1. For every query \<open>q\<close>, \<open>lookup_faq q\<close> is the answer of the first entry of the FAQ
  table whose question or answer contains \<open>q\<close> case-insensitively, and the fixed sentence
  "Sorry, I couldn't find that information." when no entry qualifies. The function is
  total: it is a recursion over the finite table and raises nowhere.
\<close>

theorem lookup_faq_first_match:
  "lookup_faq q =
     (case find (faq_matches q) faq_data of
        None \<Rightarrow> ''Sorry, I couldn't find that information.''
      | Some f \<Rightarrow> answer f)"
  by (simp add: lookup_faq_def lookup_faq_loop_find)

lemma sentence_neq_not_found:
  "''Order '' @ i @ '' is '' @ st @ '' and will arrive by '' @ e @ ''.''
     \<noteq> ''Order ID '' @ i @ '' not found.''"
proof
  assume "''Order '' @ i @ '' is '' @ st @ '' and will arrive by '' @ e @ ''.''
     = ''Order ID '' @ i @ '' not found.''"
  then have "length (''Order '' @ i @ '' is '' @ st @ '' and will arrive by '' @ e @ ''.'')
     = length (''Order ID '' @ i @ '' not found.'')"
    by (rule arg_cong)
  then show False by simp
qed

lemma get_order_status_loop_find:
  "get_order_status_loop rs i =
     (case find (\<lambda>r. lower (order_id r) = lower i) rs of
        None \<Rightarrow> ''Order ID '' @ i @ '' not found.''
      | Some r \<Rightarrow> ''Order '' @ i @ '' is '' @ status r @ '' and will arrive by '' @ eta r @ ''.'')"
  by (induction rs) simp_all

lemma find_Some_holds: "find P xs = Some x \<Longrightarrow> x \<in> set xs \<and> P x"
  by (induction xs) (auto split: if_splits)

text \<open>
  C2. For every id \<open>i\<close>, \<open>get_order_status i\<close> is the sentence "Order ID \<open>i\<close> not found."
  if and only if no order record has an \<open>order_id\<close> equal to \<open>i\<close> case-insensitively;
  otherwise it is the sentence that embeds \<open>i\<close> and the status and eta of the first such
  record as they stand. Order "ORD124" gives
  "Order ORD124 is Delivered and will arrive by 2025-10-22." and order "zzz" gives
  "Order ID zzz not found.".
\<close>

theorem get_order_status_found_iff:
  "(get_order_status i = ''Order ID '' @ i @ '' not found.''
      \<longleftrightarrow> (\<forall>r\<in>set order_data. lower (order_id r) \<noteq> lower i))
   \<and> (\<forall>r. find (\<lambda>r. lower (order_id r) = lower i) order_data = Some r \<longrightarrow>
          get_order_status i =
            ''Order '' @ i @ '' is '' @ status r @ '' and will arrive by '' @ eta r @ ''.'')
   \<and> get_order_status ''ORD124'' = ''Order ORD124 is Delivered and will arrive by 2025-10-22.''
   \<and> get_order_status ''zzz'' = ''Order ID zzz not found.''"
proof -
  have a: "get_order_status i = ''Order ID '' @ i @ '' not found.''
      \<longleftrightarrow> (\<forall>r\<in>set order_data. lower (order_id r) \<noteq> lower i)"
  proof (cases "find (\<lambda>r. lower (order_id r) = lower i) order_data")
    case None
    then have "get_order_status i = ''Order ID '' @ i @ '' not found.''"
      by (simp only: get_order_status_def get_order_status_loop_find option.case)
    moreover from None have "\<forall>r\<in>set order_data. lower (order_id r) \<noteq> lower i"
      by (simp add: find_None_iff)
    ultimately show ?thesis by simp
  next
    case (Some r)
    then have "get_order_status i =
        ''Order '' @ i @ '' is '' @ status r @ '' and will arrive by '' @ eta r @ ''.''"
      by (simp only: get_order_status_def get_order_status_loop_find option.case)
    then have "get_order_status i \<noteq> ''Order ID '' @ i @ '' not found.''"
      by (simp only: sentence_neq_not_found not_False_eq_True)
    moreover from Some have "r \<in> set order_data \<and> lower (order_id r) = lower i"
      by (rule find_Some_holds)
    ultimately show ?thesis by blast
  qed
  have b: "\<forall>r. find (\<lambda>r. lower (order_id r) = lower i) order_data = Some r \<longrightarrow>
          get_order_status i =
            ''Order '' @ i @ '' is '' @ status r @ '' and will arrive by '' @ eta r @ ''.''"
    by (simp add: get_order_status_def get_order_status_loop_find)
  have c: "get_order_status ''ORD124''
      = ''Order ORD124 is Delivered and will arrive by 2025-10-22.''"
    by code_simp
  have d: "get_order_status ''zzz'' = ''Order ID zzz not found.''"
    by code_simp
  from a b c d show ?thesis by blast
qed

theorem get_order_status_found_iff_witness:
  "find (\<lambda>r. lower (order_id r) = lower ''ord123'') order_data
     = Some \<lparr>order_id = ''ORD123'', status = ''Shipped'', eta = ''2025-10-28''\<rparr>
   \<and> get_order_status ''ord123'' = ''Order ord123 is Shipped and will arrive by 2025-10-28.''
   \<and> get_order_status ''ord123'' \<noteq> ''Order ID ord123 not found.''
   \<and> find (\<lambda>r. lower (order_id r) = lower ''ORD999'') order_data = None
   \<and> get_order_status ''ORD999'' = ''Order ID ORD999 not found.''"
proof -
  have f: "find (\<lambda>r. lower (order_id r) = lower ''ord123'') order_data
     = Some \<lparr>order_id = ''ORD123'', status = ''Shipped'', eta = ''2025-10-28''\<rparr>"
    by code_simp
  have n: "find (\<lambda>r. lower (order_id r) = lower ''ORD999'') order_data = None"
    by code_simp
  then have n': "\<forall>r\<in>set order_data. lower (order_id r) \<noteq> lower ''ORD999''"
    by (simp add: find_None_iff)
  from f have m: "\<not> (\<forall>r\<in>set order_data. lower (order_id r) \<noteq> lower ''ord123'')"
    by (auto dest: find_Some_holds)
  from get_order_status_found_iff [of "''ord123''"] f m
  have "get_order_status ''ord123'' = ''Order ord123 is Shipped and will arrive by 2025-10-28.''"
    and "get_order_status ''ord123'' \<noteq> ''Order ID ord123 not found.''"
    by simp_all
  moreover from get_order_status_found_iff [of "''ORD999''"] n'
  have "get_order_status ''ORD999'' = ''Order ID ORD999 not found.''"
    by simp
  ultimately show ?thesis using f n by blast
qed

section \<open>What one turn changes\<close>

lemma log_conversation_fields [simp]:
  "messages (log_conversation env r t s) = messages s"
  "display_messages (log_conversation env r t s) = display_messages s"
  "errors_shown (log_conversation env r t s) = errors_shown s"
  "requests (log_conversation env r t s) = requests s"
  "log_file (log_conversation env r t s) = log_file s @ [log_line (fst (now env (world s))) r t]"
  "world (log_conversation env r t s) = snd (now env (world s))"
  by (simp_all add: log_conversation_def split: prod.split)

lemma append_reply_fields [simp]:
  "messages (append_reply env reply s) = messages s @ [Dict ''assistant'' reply]"
  "display_messages (append_reply env reply s) = display_messages s @ [Dict ''assistant'' reply]"
  "errors_shown (append_reply env reply s) = errors_shown s"
  "requests (append_reply env reply s) = requests s"
  "log_file (append_reply env reply s) =
     log_file s @ [log_line (fst (now env (world s))) ''assistant'' reply]"
  "world (append_reply env reply s) = snd (now env (world s))"
  by (simp_all add: append_reply_def)

lemma call_create_fields [simp]:
  "fst (call_create env req s) = fst (create env req (world s))"
  "messages (snd (call_create env req s)) = messages s"
  "display_messages (snd (call_create env req s)) = display_messages s"
  "errors_shown (snd (call_create env req s)) = errors_shown s"
  "log_file (snd (call_create env req s)) = log_file s"
  "requests (snd (call_create env req s)) = requests s @ [req]"
  "world (snd (call_create env req s)) = snd (create env req (world s))"
  by (simp_all add: call_create_def split: prod.split)

lemma turn_start_fields [simp]:
  "messages (turn_start env ui s) = messages s @ [Dict ''user'' ui]"
  "display_messages (turn_start env ui s) = display_messages s @ [Dict ''user'' ui]"
  "errors_shown (turn_start env ui s) = errors_shown s"
  "requests (turn_start env ui s) = requests s"
  "log_file (turn_start env ui s) = log_file s @ [log_line (fst (now env (world s))) ''user'' ui]"
  "world (turn_start env ui s) = snd (now env (world s))"
  by (simp_all add: turn_start_def)

lemma except_block_fields [simp]:
  "messages (except_block env e s) = messages s"
  "display_messages (except_block env e s) = display_messages s"
  "errors_shown (except_block env e s) = errors_shown s @ [cross_mark @ '' API Error: '' @ str_exn e]"
  "requests (except_block env e s) = requests s"
  "log_file (except_block env e s) =
     log_file s @ [log_line (fst (now env (world s))) ''error'' (str_exn e)]"
  "world (except_block env e s) = snd (now env (world s))"
  by (simp_all add: except_block_def)

lemma replies_added_refl: "replies_added s s [] []"
  by (simp add: replies_added_def assistant_lines_def)

lemma replies_added_trans:
  "replies_added s s1 rs dts \<Longrightarrow> replies_added s1 s2 rs' dts' \<Longrightarrow>
   replies_added s s2 (rs @ rs') (dts @ dts')"
  by (simp add: replies_added_def assistant_lines_def)

lemma replies_added_call_create:
  "replies_added s (snd (call_create env req s)) [] []"
  by (simp add: replies_added_def assistant_lines_def)

lemma replies_added_append_reply:
  "replies_added s (append_reply env reply s) [reply] [fst (now env (world s))]"
  by (simp add: replies_added_def assistant_lines_def)

lemma follow_up_effect:
  assumes "follow_up env m tc res s = (r, s')"
  shows "(r = None \<and> (\<exists>reply dt. replies_added s s' [reply] [dt])) \<or>
         (r \<noteq> None \<and> replies_added s s' [] [])"
proof (cases "call_create env \<lparr>model = ''gpt-5'', msgs = follow_up_messages m tc res s, tools_arg = None\<rparr> s")
  case (Pair a s1)
  then have s1: "s1 = snd (call_create env \<lparr>model = ''gpt-5'', msgs = follow_up_messages m tc res s, tools_arg = None\<rparr> s)"
    by simp
  have base: "replies_added s s1 [] []"
    unfolding s1 by (rule replies_added_call_create)
  show ?thesis
  proof (cases a)
    case (Inl e)
    with assms Pair base show ?thesis by (auto simp: follow_up_def)
  next
    case (Inr completion)
    show ?thesis
    proof (cases "first_choice completion")
      case (Inl e)
      with assms Pair Inr base show ?thesis by (auto simp: follow_up_def)
    next
      case inr: (Inr final_msg)
      with assms Pair Inr have r: "r = None"
        and s': "s' = append_reply env (or_else (content final_msg) res) s1"
        by (simp_all add: follow_up_def)
      have "replies_added s1 s' [or_else (content final_msg) res] [fst (now env (world s1))]"
        unfolding s' by (rule replies_added_append_reply)
      with base have "replies_added s s' ([] @ [or_else (content final_msg) res]) ([] @ [fst (now env (world s1))])"
        by (rule replies_added_trans)
      with r show ?thesis by auto
    qed
  qed
qed

lemma handle_tool_call_effect:
  assumes "handle_tool_call env m tc s = (r, s')"
  shows "(r = None \<and> (\<exists>reply dt. replies_added s s' [reply] [dt])) \<or>
         (r \<noteq> None \<and> replies_added s s' [] [])"
proof (cases "execute_tool tc")
  case (Inl e)
  with assms show ?thesis by (auto simp: handle_tool_call_def replies_added_refl)
next
  case (Inr res)
  with assms have "follow_up env m tc res s = (r, s')" by (simp add: handle_tool_call_def)
  then show ?thesis by (rule follow_up_effect)
qed

lemma tool_loop_effect:
  "tool_loop env m tcs s = (r, s') \<Longrightarrow>
   \<exists>rs dts. replies_added s s' rs dts \<and> length rs \<le> length tcs \<and>
            (r = None \<longrightarrow> length rs = length tcs)"
proof (induction tcs arbitrary: s)
  case Nil
  then have "r = None" "s' = s" by simp_all
  then show ?case using replies_added_refl [of s] by auto
next
  case (Cons tc tcs)
  obtain r1 s1 where h: "handle_tool_call env m tc s = (r1, s1)" by (cases "handle_tool_call env m tc s")
  show ?case
  proof (cases r1)
    case None
    with Cons.prems h have rest: "tool_loop env m tcs s1 = (r, s')" by simp
    from handle_tool_call_effect [OF h] None obtain reply dt
      where one: "replies_added s s1 [reply] [dt]" by auto
    from Cons.IH [OF rest] obtain rs dts
      where more: "replies_added s1 s' rs dts" and le: "length rs \<le> length tcs"
        and all: "r = None \<longrightarrow> length rs = length tcs" by blast
    from one more have "replies_added s s' ([reply] @ rs) ([dt] @ dts)"
      by (rule replies_added_trans)
    with le all show ?thesis
      by (intro exI [of _ "[reply] @ rs"] exI [of _ "[dt] @ dts"]) simp
  next
    case (Some e)
    with Cons.prems h have "r = Some e" "s' = s1" by simp_all
    moreover from handle_tool_call_effect [OF h] Some have "replies_added s s1 [] []" by auto
    ultimately show ?thesis by (intro exI [of _ "[]"]) auto
  qed
qed


lemma try_block_effect:
  assumes "try_block env s = (r, s')"
  shows "\<exists>rs dts. replies_added s s' rs dts"
proof (cases "call_create env \<lparr>model = ''gpt-5'', msgs = messages s, tools_arg = Some tools\<rparr> s")
  case (Pair a s1)
  then have s1: "s1 = snd (call_create env \<lparr>model = ''gpt-5'', msgs = messages s, tools_arg = Some tools\<rparr> s)"
    by simp
  have base: "replies_added s s1 [] []"
    unfolding s1 by (rule replies_added_call_create)
  show ?thesis
  proof (cases a)
    case (Inl e)
    with assms Pair base show ?thesis by (auto simp: try_block_def)
  next
    case (Inr completion)
    show ?thesis
    proof (cases "first_choice completion")
      case (Inl e)
      with assms Pair Inr base show ?thesis by (auto simp: try_block_def)
    next
      case inr: (Inr message)
      show ?thesis
      proof (cases "requested (tool_calls message) = []")
        case True
        with assms Pair Inr inr
        have s': "s' = append_reply env (or_else (content message) ''No response.'') s1"
          by (auto simp: try_block_def)
        have "replies_added s1 s' [or_else (content message) ''No response.''] [fst (now env (world s1))]"
          unfolding s' by (rule replies_added_append_reply)
        with base have "replies_added s s' ([] @ [or_else (content message) ''No response.''])
            ([] @ [fst (now env (world s1))])"
          by (rule replies_added_trans)
        then show ?thesis by blast
      next
        case False
        with assms Pair Inr inr
        have "tool_loop env message (requested (tool_calls message)) s1 = (r, s')"
          by (auto simp: try_block_def)
        from tool_loop_effect [OF this] obtain rs dts where "replies_added s1 s' rs dts" by blast
        with base have "replies_added s s' ([] @ rs) ([] @ dts)"
          by (rule replies_added_trans)
        then show ?thesis by blast
      qed
    qed
  qed
qed

lemma user_turn_effect:
  "\<exists>rs dts eo.
     messages (user_turn env ui s) = messages s @ Dict ''user'' ui # map (Dict ''assistant'') rs \<and>
     display_messages (user_turn env ui s) =
       display_messages s @ Dict ''user'' ui # map (Dict ''assistant'') rs \<and>
     length dts = length rs \<and>
     log_file (user_turn env ui s) =
       log_file s @ log_line (fst (now env (world s))) ''user'' ui # assistant_lines dts rs @ error_lines eo \<and>
     errors_shown (user_turn env ui s) = errors_shown s @ error_boxes eo"
proof -
  obtain r s1 where t: "try_block env (turn_start env ui s) = (r, s1)"
    by (cases "try_block env (turn_start env ui s)")
  from try_block_effect [OF t] obtain rs dts
    where ra: "replies_added (turn_start env ui s) s1 rs dts" by blast
  have ut: "user_turn env ui s = (case r of None \<Rightarrow> s1 | Some e \<Rightarrow> except_block env e s1)"
    using t by (simp add: user_turn_def split: option.split)
  show ?thesis
  proof (cases r)
    case None
    with ut ra show ?thesis
      by (intro exI [of _ rs] exI [of _ dts] exI [of _ None])
         (simp add: replies_added_def error_lines_def error_boxes_def)
  next
    case (Some e)
    with ut ra show ?thesis
      by (intro exI [of _ rs] exI [of _ dts] exI [of _ "Some (fst (now env (world s1)), e)"])
         (simp add: replies_added_def error_lines_def error_boxes_def)
  qed
qed

lemma chat_interaction_cases:
  "chat_interaction env user_input s = s \<or>
   (\<exists>ui. user_input = Some ui \<and> ui \<noteq> [] \<and>
      chat_interaction env user_input s = user_turn env ui s)"
  by (cases user_input) (auto simp: chat_interaction_def)

lemma chat_interaction_effect:
  "\<exists>added. messages (chat_interaction env user_input s) = messages s @ added \<and>
     display_messages (chat_interaction env user_input s) = display_messages s @ added \<and>
     (\<forall>m\<in>set added. \<exists>c. m = Dict ''user'' c \<or> m = Dict ''assistant'' c)"
proof -
  from chat_interaction_cases [of env user_input s] show ?thesis
  proof
    assume "chat_interaction env user_input s = s"
    then show ?thesis by (intro exI [of _ "[]"]) simp
  next
    assume "\<exists>ui. user_input = Some ui \<and> ui \<noteq> [] \<and>
      chat_interaction env user_input s = user_turn env ui s"
    then obtain ui where c: "chat_interaction env user_input s = user_turn env ui s"
      by blast
    from user_turn_effect [of env ui s] obtain rs
      where "messages (user_turn env ui s)
          = messages s @ Dict ''user'' ui # map (Dict ''assistant'') rs"
        and "display_messages (user_turn env ui s)
          = display_messages s @ Dict ''user'' ui # map (Dict ''assistant'') rs"
      by blast
    with c show ?thesis
      by (intro exI [of _ "Dict ''user'' ui # map (Dict ''assistant'') rs"]) auto
  qed
qed

section \<open>The two transcripts\<close>

lemma reachable_seeded:
  "reachable env s \<Longrightarrow> messages s = initial_messages @ display_messages s"
proof (induction rule: reachable.induct)
  case (start w)
  show ?case by (simp add: init_state_def)
next
  case (run s user_input)
  from chat_interaction_effect [of env user_input s] obtain added
    where "messages (chat_interaction env user_input s) = messages s @ added"
      and "display_messages (chat_interaction env user_input s) = display_messages s @ added"
    by blast
  with run.IH show ?case by simp
next
  case (idle s w)
  then show ?case by simp
qed

lemma reachable_shown_roles:
  "reachable env s \<Longrightarrow>
   \<forall>m\<in>set (display_messages s). \<exists>c. m = Dict ''user'' c \<or> m = Dict ''assistant'' c"
proof (induction rule: reachable.induct)
  case (start w)
  show ?case by (simp add: init_state_def)
next
  case (run s user_input)
  from chat_interaction_effect [of env user_input s] obtain added
    where "display_messages (chat_interaction env user_input s) = display_messages s @ added"
      and "\<forall>m\<in>set added. \<exists>c. m = Dict ''user'' c \<or> m = Dict ''assistant'' c"
    by blast
  with run.IH show ?case by auto
next
  case (idle s w)
  then show ?case by simp
qed

text \<open>
  C5, as amended. At every point in a session the transcript is the three seeded entries
  (the system directive and the example user/assistant exchange, never shown) followed by
  exactly the display transcript: every user message and every assistant reply appended
  to one list is appended to the other at the same place, and the two sequences differ
  only in the seeded entries. The transcript holds no tool entry.
\<close>

theorem transcript_is_seed_then_display:
  "reachable env s \<Longrightarrow>
   messages s = initial_messages @ display_messages s \<and>
   map role_of initial_messages = [''system'', ''user'', ''assistant''] \<and>
   ''tool'' \<notin> set (map role_of (messages s))"
proof -
  assume r: "reachable env s"
  then have m: "messages s = initial_messages @ display_messages s"
    by (rule reachable_seeded)
  have i: "map role_of initial_messages = [''system'', ''user'', ''assistant'']"
    by (simp add: initial_messages_def)
  from reachable_shown_roles [OF r]
  have "\<forall>m\<in>set (display_messages s). role_of m \<noteq> ''tool''" by auto
  then have "''tool'' \<notin> set (map role_of (display_messages s))" by auto
  with m i have "''tool'' \<notin> set (map role_of (messages s))" by simp
  with m i show ?thesis by simp
qed

theorem transcript_is_seed_then_display_witness:
  "reachable scripted (chat_interaction scripted (Some ''Hello'') (init_state [text_reply ''Hi!'']))
   \<and> messages (chat_interaction scripted (Some ''Hello'') (init_state [text_reply ''Hi!'']))
     = initial_messages @ [Dict ''user'' ''Hello'', Dict ''assistant'' ''Hi!'']
   \<and> display_messages (chat_interaction scripted (Some ''Hello'') (init_state [text_reply ''Hi!'']))
     = [Dict ''user'' ''Hello'', Dict ''assistant'' ''Hi!'']"
proof -
  have r: "reachable scripted
      (chat_interaction scripted (Some ''Hello'') (init_state [text_reply ''Hi!'']))"
    by (rule reachable.run [OF reachable.start])
  have d: "display_messages
      (chat_interaction scripted (Some ''Hello'') (init_state [text_reply ''Hi!'']))
     = [Dict ''user'' ''Hello'', Dict ''assistant'' ''Hi!'']"
    by code_simp
  from transcript_is_seed_then_display [OF r]
  have "messages (chat_interaction scripted (Some ''Hello'') (init_state [text_reply ''Hi!'']))
     = initial_messages @ display_messages
         (chat_interaction scripted (Some ''Hello'') (init_state [text_reply ''Hi!'']))"
    by (rule conjunct1)
  then have m: "messages
      (chat_interaction scripted (Some ''Hello'') (init_state [text_reply ''Hi!'']))
     = initial_messages @ [Dict ''user'' ''Hello'', Dict ''assistant'' ''Hi!'']"
    by (simp only: d)
  show ?thesis by (rule conjI [OF r conjI [OF m d]])
qed

theorem transcript_minus_bookkeeping_counterexample:
  "without_bookkeeping
     (messages (chat_interaction scripted (Some ''Hello'') (init_state [text_reply ''Hi!''])))
   = [Dict ''user'' ''How can I reset my password?'',
      Dict ''assistant'' (''You can reset it under Account Settings '' @ arrow @ '' Security.''),
      Dict ''user'' ''Hello'', Dict ''assistant'' ''Hi!'']
   \<and> display_messages (chat_interaction scripted (Some ''Hello'') (init_state [text_reply ''Hi!'']))
   = [Dict ''user'' ''Hello'', Dict ''assistant'' ''Hi!'']
   \<and> without_bookkeeping
     (messages (chat_interaction scripted (Some ''Hello'') (init_state [text_reply ''Hi!''])))
   \<noteq> display_messages (chat_interaction scripted (Some ''Hello'') (init_state [text_reply ''Hi!'']))"
proof -
  have t: "without_bookkeeping
     (messages (chat_interaction scripted (Some ''Hello'') (init_state [text_reply ''Hi!''])))
   = [Dict ''user'' ''How can I reset my password?'',
      Dict ''assistant'' (''You can reset it under Account Settings '' @ arrow @ '' Security.''),
      Dict ''user'' ''Hello'', Dict ''assistant'' ''Hi!'']"
    by code_simp
  have d: "display_messages
      (chat_interaction scripted (Some ''Hello'') (init_state [text_reply ''Hi!'']))
   = [Dict ''user'' ''Hello'', Dict ''assistant'' ''Hi!'']"
    by code_simp
  have "length (without_bookkeeping
     (messages (chat_interaction scripted (Some ''Hello'') (init_state [text_reply ''Hi!'']))))
   \<noteq> length (display_messages
      (chat_interaction scripted (Some ''Hello'') (init_state [text_reply ''Hi!''])))"
    by (simp only: t d list.size)
  then have "without_bookkeeping
     (messages (chat_interaction scripted (Some ''Hello'') (init_state [text_reply ''Hi!''])))
   \<noteq> display_messages (chat_interaction scripted (Some ''Hello'') (init_state [text_reply ''Hi!'']))"
    by (rule contrapos_nn) (rule arg_cong)
  with t d show ?thesis by (intro conjI)
qed

text \<open>
  C10. Every entry ever present in the display transcript is a user or an assistant
  entry: the list starts empty, a turn appends the user's input and assistant replies
  only, and the handler of an exception leaves the list as it is (the error goes to the
  error box and to the log).
\<close>

theorem display_holds_user_and_assistant_only:
  "(reachable env s \<longrightarrow>
      (\<forall>m\<in>set (display_messages s). \<exists>c. m = Dict ''user'' c \<or> m = Dict ''assistant'' c)) \<and>
   display_messages (init_state w) = [] \<and>
   display_messages (except_block env e s) = display_messages s \<and>
   errors_shown (except_block env e s) = errors_shown s @ [cross_mark @ '' API Error: '' @ str_exn e] \<and>
   log_file (except_block env e s)
     = log_file s @ [log_line (fst (now env (world s))) ''error'' (str_exn e)]"
proof -
  have a: "reachable env s \<longrightarrow>
      (\<forall>m\<in>set (display_messages s). \<exists>c. m = Dict ''user'' c \<or> m = Dict ''assistant'' c)"
    using reachable_shown_roles [of env s] by blast
  have b: "display_messages (init_state w) = []"
    by (simp add: init_state_def)
  from a b except_block_fields(2) [of env e s] except_block_fields(3) [of env e s]
    except_block_fields(5) [of env e s]
  show ?thesis by blast
qed

theorem display_holds_user_and_assistant_only_witness:
  "reachable scripted (chat_interaction scripted (Some ''Hello'') (init_state []))
   \<and> list_all (\<lambda>m. \<exists>c. m = Dict ''user'' c \<or> m = Dict ''assistant'' c)
       (display_messages (chat_interaction scripted (Some ''Hello'') (init_state [])))
   \<and> display_messages (chat_interaction scripted (Some ''Hello'') (init_state []))
       = [Dict ''user'' ''Hello'']
   \<and> errors_shown (chat_interaction scripted (Some ''Hello'') (init_state []))
       = [cross_mark @ '' API Error: Connection error.'']"
proof -
  have r: "reachable scripted (chat_interaction scripted (Some ''Hello'') (init_state []))"
    by (rule reachable.run [OF reachable.start])
  have d: "display_messages (chat_interaction scripted (Some ''Hello'') (init_state []))
       = [Dict ''user'' ''Hello'']"
    by code_simp
  have e: "errors_shown (chat_interaction scripted (Some ''Hello'') (init_state []))
       = [cross_mark @ '' API Error: Connection error.'']"
    by code_simp
  have "\<forall>m\<in>set (display_messages (chat_interaction scripted (Some ''Hello'') (init_state []))).
      \<exists>c. m = Dict ''user'' c \<or> m = Dict ''assistant'' c"
    by (rule display_holds_user_and_assistant_only [THEN conjunct1, THEN mp, OF r])
  then have la: "list_all (\<lambda>m. \<exists>c. m = Dict ''user'' c \<or> m = Dict ''assistant'' c)
       (display_messages (chat_interaction scripted (Some ''Hello'') (init_state [])))"
    by (simp only: list_all_iff)
  show ?thesis by (rule conjI [OF r conjI [OF la conjI [OF d e]]])
qed


section \<open>The conversation log\<close>

lemma of_char_digit_char: "d < 10 \<Longrightarrow> (of_char (digit_char d) :: nat) = 48 + d"
  by (simp add: digit_char_def)

lemma is_digit_digit_char: "is_digit (digit_char (n mod 10))"
  by (simp add: is_digit_def of_char_digit_char)

lemma digit_char_not_newline: "digit_char (n mod 10) \<noteq> newline"
proof
  assume "digit_char (n mod 10) = newline"
  then have "(of_char (digit_char (n mod 10)) :: nat) = of_char newline" by simp
  then show False by (simp add: of_char_digit_char newline_def)
qed

lemma is_timestamp_strftime: "is_timestamp (strftime dt)"
  by (simp add: is_timestamp_def strftime_def pad2_def pad4_def is_digit_digit_char)

lemma line_breaks_append: "line_breaks (a @ b) = line_breaks a + line_breaks b"
  by (simp add: line_breaks_def)

lemma line_breaks_strftime: "line_breaks (strftime dt) = 0"
  by (simp add: line_breaks_def strftime_def pad2_def pad4_def digit_char_not_newline)
     (simp add: newline_def)

lemma capitalize_roles:
  "capitalize ''user'' = ''User''"
  "capitalize ''assistant'' = ''Assistant''"
  "capitalize ''error'' = ''Error''"
  by code_simp+

lemma log_line_roles:
  "log_line dt ''user'' t = ''['' @ strftime dt @ ''] User: '' @ t @ [newline]"
  "log_line dt ''assistant'' t = ''['' @ strftime dt @ ''] Assistant: '' @ t @ [newline]"
  "log_line dt ''error'' t = ''['' @ strftime dt @ ''] Error: '' @ t @ [newline]"
  by (simp_all only: log_line_def capitalize_roles) simp_all

lemma line_breaks_log_line:
  "line_breaks (log_line dt ''user'' t) = Suc (line_breaks t)"
  "line_breaks (log_line dt ''assistant'' t) = Suc (line_breaks t)"
  "line_breaks (log_line dt ''error'' t) = Suc (line_breaks t)"
proof -
  have fixed: "line_breaks ''['' = 0" "line_breaks ''] User: '' = 0"
    "line_breaks ''] Assistant: '' = 0" "line_breaks ''] Error: '' = 0"
    "line_breaks [newline] = 1"
    by (simp_all add: line_breaks_def newline_def)
  show "line_breaks (log_line dt ''user'' t) = Suc (line_breaks t)"
    by (simp only: log_line_roles line_breaks_append line_breaks_strftime fixed; simp)
  show "line_breaks (log_line dt ''assistant'' t) = Suc (line_breaks t)"
    by (simp only: log_line_roles line_breaks_append line_breaks_strftime fixed; simp)
  show "line_breaks (log_line dt ''error'' t) = Suc (line_breaks t)"
    by (simp only: log_line_roles line_breaks_append line_breaks_strftime fixed; simp)
qed

lemma lines_in_append: "lines_in (xs @ ys) = lines_in xs + lines_in ys"
  by (simp add: lines_in_def)

lemma lines_in_assistant_lines:
  "length dts = length rs \<Longrightarrow>
   lines_in (assistant_lines dts rs) = length rs + sum_list (map line_breaks rs)"
proof (induction dts rs rule: list_induct2)
  case Nil
  show ?case by (simp add: lines_in_def assistant_lines_def)
next
  case (Cons dt dts r rs)
  then show ?case
    by (simp add: lines_in_def assistant_lines_def line_breaks_log_line)
qed

lemma lines_in_error_lines:
  "lines_in (error_lines eo) =
     (if eo = None then 0 else 1) + (case eo of None \<Rightarrow> 0 | Some (dt, e) \<Rightarrow> line_breaks (str_exn e))"
  by (cases eo) (auto simp: lines_in_def error_lines_def line_breaks_log_line)

text \<open>
  C6, as amended. A user turn writes to the conversation log one record for the user's
  message, then one for each assistant reply it produces, then one if it ends in an
  error, each of the form "[\<open>YYYY-MM-DD HH:MM:SS\<close>] \<open>Role\<close>: \<open>content\<close>" followed by a line
  break, with the role capitalised. The content is written as it is: the number of lines
  the turn adds is the number of records plus the number of line breaks inside the logged
  contents, so it is 1 + replies + (1 if the turn errored) exactly when no content holds
  a line break.
\<close>

theorem turn_log_records:
  "(\<exists>rs dts eo.
      display_messages (user_turn env ui s) =
        display_messages s @ Dict ''user'' ui # map (Dict ''assistant'') rs \<and>
      errors_shown (user_turn env ui s) = errors_shown s @ error_boxes eo \<and>
      length dts = length rs \<and>
      log_file (user_turn env ui s) =
        log_file s @ log_line (fst (now env (world s))) ''user'' ui #
          assistant_lines dts rs @ error_lines eo \<and>
      length (log_file (user_turn env ui s)) =
        length (log_file s) + 1 + length rs + (if eo = None then 0 else 1) \<and>
      lines_in (log_file (user_turn env ui s)) =
        lines_in (log_file s) + 1 + length rs + (if eo = None then 0 else 1) +
        (line_breaks ui + sum_list (map line_breaks rs) +
         (case eo of None \<Rightarrow> 0 | Some (dt, e) \<Rightarrow> line_breaks (str_exn e)))) \<and>
   log_line dt ''user'' t = ''['' @ strftime dt @ ''] User: '' @ t @ [newline] \<and>
   log_line dt ''assistant'' t = ''['' @ strftime dt @ ''] Assistant: '' @ t @ [newline] \<and>
   log_line dt ''error'' t = ''['' @ strftime dt @ ''] Error: '' @ t @ [newline] \<and>
   is_timestamp (strftime dt)"
proof -
  from user_turn_effect [of env ui s] obtain rs dts eo
    where d: "display_messages (user_turn env ui s) =
        display_messages s @ Dict ''user'' ui # map (Dict ''assistant'') rs"
      and e: "errors_shown (user_turn env ui s) = errors_shown s @ error_boxes eo"
      and n: "length dts = length rs"
      and l: "log_file (user_turn env ui s) =
        log_file s @ log_line (fst (now env (world s))) ''user'' ui #
          assistant_lines dts rs @ error_lines eo"
    by blast
  have el: "length (error_lines eo) = (if eo = None then 0 else 1)"
    by (cases eo) (auto simp: error_lines_def)
  from n have al: "length (assistant_lines dts rs) = length rs"
    by (simp add: assistant_lines_def)
  from l el al have c: "length (log_file (user_turn env ui s)) =
        length (log_file s) + 1 + length rs + (if eo = None then 0 else 1)"
    by simp
  have "lines_in (log_file (user_turn env ui s)) =
      lines_in (log_file s) + (lines_in [log_line (fst (now env (world s))) ''user'' ui] +
        (lines_in (assistant_lines dts rs) + lines_in (error_lines eo)))"
    by (simp only: l lines_in_append [symmetric]) simp
  also have "lines_in [log_line (fst (now env (world s))) ''user'' ui] = 1 + line_breaks ui"
    by (simp add: lines_in_def line_breaks_log_line)
  finally have k: "lines_in (log_file (user_turn env ui s)) =
        lines_in (log_file s) + 1 + length rs + (if eo = None then 0 else 1) +
        (line_breaks ui + sum_list (map line_breaks rs) +
         (case eo of None \<Rightarrow> 0 | Some (dt, e) \<Rightarrow> line_breaks (str_exn e)))"
    by (simp add: lines_in_assistant_lines [OF n] lines_in_error_lines)
  from d e n l c k have "\<exists>rs dts eo.
      display_messages (user_turn env ui s) =
        display_messages s @ Dict ''user'' ui # map (Dict ''assistant'') rs \<and>
      errors_shown (user_turn env ui s) = errors_shown s @ error_boxes eo \<and>
      length dts = length rs \<and>
      log_file (user_turn env ui s) =
        log_file s @ log_line (fst (now env (world s))) ''user'' ui #
          assistant_lines dts rs @ error_lines eo \<and>
      length (log_file (user_turn env ui s)) =
        length (log_file s) + 1 + length rs + (if eo = None then 0 else 1) \<and>
      lines_in (log_file (user_turn env ui s)) =
        lines_in (log_file s) + 1 + length rs + (if eo = None then 0 else 1) +
        (line_breaks ui + sum_list (map line_breaks rs) +
         (case eo of None \<Rightarrow> 0 | Some (dt, e) \<Rightarrow> line_breaks (str_exn e)))"
    by blast
  with log_line_roles [of dt t] is_timestamp_strftime [of dt] show ?thesis
    by (intro conjI)
qed

theorem one_line_per_record_counterexample:
  "display_messages
     (user_turn scripted ''How do I reset my password?''
        (init_state [text_reply (''1. Open Account Settings.'' @ [newline] @ ''2. Choose Security.'')]))
     = [Dict ''user'' ''How do I reset my password?'',
        Dict ''assistant'' (''1. Open Account Settings.'' @ [newline] @ ''2. Choose Security.'')]
   \<and> errors_shown
     (user_turn scripted ''How do I reset my password?''
        (init_state [text_reply (''1. Open Account Settings.'' @ [newline] @ ''2. Choose Security.'')]))
     = []
   \<and> lines_in (log_file
        (init_state [text_reply (''1. Open Account Settings.'' @ [newline] @ ''2. Choose Security.'')]))
     = 0
   \<and> lines_in (log_file
     (user_turn scripted ''How do I reset my password?''
        (init_state [text_reply (''1. Open Account Settings.'' @ [newline] @ ''2. Choose Security.'')])))
     = 3"
proof -
  have a: "display_messages
     (user_turn scripted ''How do I reset my password?''
        (init_state [text_reply (''1. Open Account Settings.'' @ [newline] @ ''2. Choose Security.'')]))
     = [Dict ''user'' ''How do I reset my password?'',
        Dict ''assistant'' (''1. Open Account Settings.'' @ [newline] @ ''2. Choose Security.'')]"
    by code_simp
  have b: "errors_shown
     (user_turn scripted ''How do I reset my password?''
        (init_state [text_reply (''1. Open Account Settings.'' @ [newline] @ ''2. Choose Security.'')]))
     = []"
    by code_simp
  have c: "lines_in (log_file
        (init_state [text_reply (''1. Open Account Settings.'' @ [newline] @ ''2. Choose Security.'')]))
     = 0"
    by code_simp
  have d: "lines_in (log_file
     (user_turn scripted ''How do I reset my password?''
        (init_state [text_reply (''1. Open Account Settings.'' @ [newline] @ ''2. Choose Security.'')])))
     = 3"
    by code_simp
  show ?thesis by (rule conjI [OF a conjI [OF b conjI [OF c d]]])
qed


section \<open>A completion call that raises\<close>

lemma try_block_first_call_raises:
  assumes "create env \<lparr>model = ''gpt-5'', msgs = messages s, tools_arg = Some tools\<rparr> (world s)
             = (Inl e, w)"
  shows "try_block env s =
           (Some e, s\<lparr>requests := requests s @
                        [\<lparr>model = ''gpt-5'', msgs = messages s, tools_arg = Some tools\<rparr>],
                      world := w\<rparr>)"
  using assms by (simp add: try_block_def call_create_def)

lemma try_block_tool_calls:
  assumes "create env \<lparr>model = ''gpt-5'', msgs = messages s, tools_arg = Some tools\<rparr> (world s)
             = (Inr (m # ms), w)"
    and "requested (tool_calls m) \<noteq> []"
  shows "try_block env s =
           tool_loop env m (requested (tool_calls m))
             (snd (call_create env
                \<lparr>model = ''gpt-5'', msgs = messages s, tools_arg = Some tools\<rparr> s))"
  using assms by (simp add: try_block_def call_create_def)

lemma try_block_plain_reply:
  assumes "create env \<lparr>model = ''gpt-5'', msgs = messages s, tools_arg = Some tools\<rparr> (world s)
             = (Inr (m # ms), w)"
    and "requested (tool_calls m) = []"
  shows "try_block env s =
           (None, append_reply env (or_else (content m) ''No response.'')
              (snd (call_create env
                 \<lparr>model = ''gpt-5'', msgs = messages s, tools_arg = Some tools\<rparr> s)))"
  using assms by (simp add: try_block_def call_create_def)

lemma tool_loop_append:
  "tool_loop env m (pre @ post) s =
     (case tool_loop env m pre s of
        (None, t) \<Rightarrow> tool_loop env m post t
      | (Some e, t) \<Rightarrow> (Some e, t))"
  by (induction pre arbitrary: s) (auto split: prod.split option.split)

lemma follow_up_raises:
  assumes "create env
             \<lparr>model = ''gpt-5'', msgs = messages t @ [Obj m, ToolDict (tc_id tc) res],
              tools_arg = None\<rparr> (world t) = (Inl e, w)"
  shows "follow_up env m tc res t =
           (Some e, t\<lparr>requests := requests t @
                        [\<lparr>model = ''gpt-5'', msgs = messages t @ [Obj m, ToolDict (tc_id tc) res],
                          tools_arg = None\<rparr>],
                      world := w\<rparr>)"
  using assms by (simp add: follow_up_def follow_up_messages_def call_create_def)

lemma tool_loop_follow_up_raises:
  assumes "tool_loop env m pre s = (None, t)"
    and "execute_tool tc = Inr res"
    and "create env
             \<lparr>model = ''gpt-5'', msgs = messages t @ [Obj m, ToolDict (tc_id tc) res],
              tools_arg = None\<rparr> (world t) = (Inl e, w)"
  shows "tool_loop env m (pre @ tc # post) s =
           (Some e, t\<lparr>requests := requests t @
                        [\<lparr>model = ''gpt-5'', msgs = messages t @ [Obj m, ToolDict (tc_id tc) res],
                          tools_arg = None\<rparr>],
                      world := w\<rparr>)"
  using assms(1,2) follow_up_raises [OF assms(3)]
  by (simp add: tool_loop_append handle_tool_call_def)

lemma user_turn_first_call_raises:
  assumes "create env
             \<lparr>model = ''gpt-5'', msgs = messages s @ [Dict ''user'' ui], tools_arg = Some tools\<rparr>
             (world (turn_start env ui s)) = (Inl e, w)"
  shows "display_messages (user_turn env ui s) = display_messages (turn_start env ui s)"
    and "display_messages (user_turn env ui s) = display_messages s @ [Dict ''user'' ui]"
    and "messages (user_turn env ui s) = messages s @ [Dict ''user'' ui]"
    and "errors_shown (user_turn env ui s) =
           errors_shown s @ [cross_mark @ '' API Error: '' @ str_exn e]"
    and "log_file (user_turn env ui s) =
           log_file s @ [log_line (fst (now env (world s))) ''user'' ui,
                         log_line (fst (now env w)) ''error'' (str_exn e)]"
proof -
  from assms
  have "create env
          \<lparr>model = ''gpt-5'', msgs = messages (turn_start env ui s), tools_arg = Some tools\<rparr>
          (world (turn_start env ui s)) = (Inl e, w)"
    by simp
  from try_block_first_call_raises [OF this]
  have u: "user_turn env ui s =
      except_block env e
        ((turn_start env ui s)\<lparr>requests := requests (turn_start env ui s) @
            [\<lparr>model = ''gpt-5'', msgs = messages (turn_start env ui s), tools_arg = Some tools\<rparr>],
          world := w\<rparr>)"
    by (simp add: user_turn_def)
  show "display_messages (user_turn env ui s) = display_messages (turn_start env ui s)"
    and "display_messages (user_turn env ui s) = display_messages s @ [Dict ''user'' ui]"
    and "messages (user_turn env ui s) = messages s @ [Dict ''user'' ui]"
    and "errors_shown (user_turn env ui s) =
           errors_shown s @ [cross_mark @ '' API Error: '' @ str_exn e]"
    and "log_file (user_turn env ui s) =
           log_file s @ [log_line (fst (now env (world s))) ''user'' ui,
                         log_line (fst (now env w)) ''error'' (str_exn e)]"
    by (simp_all add: u)
qed

lemma user_turn_follow_up_raises:
  assumes first: "create env
             \<lparr>model = ''gpt-5'', msgs = messages s @ [Dict ''user'' ui], tools_arg = Some tools\<rparr>
             (world (turn_start env ui s)) = (Inr (m # ms), w1)"
    and calls: "requested (tool_calls m) = pre @ tc # post"
    and before: "tool_loop env m pre
             (snd (call_create env
                \<lparr>model = ''gpt-5'', msgs = messages s @ [Dict ''user'' ui], tools_arg = Some tools\<rparr>
                (turn_start env ui s))) = (None, t)"
    and res: "execute_tool tc = Inr res"
    and raises: "create env
             \<lparr>model = ''gpt-5'', msgs = messages t @ [Obj m, ToolDict (tc_id tc) res],
              tools_arg = None\<rparr> (world t) = (Inl e, w)"
  shows "display_messages (user_turn env ui s) = display_messages t"
    and "messages (user_turn env ui s) = messages t"
    and "errors_shown (user_turn env ui s) =
           errors_shown s @ [cross_mark @ '' API Error: '' @ str_exn e]"
    and "log_file (user_turn env ui s) =
           log_file t @ [log_line (fst (now env w)) ''error'' (str_exn e)]"
    and "\<exists>rs dts. length rs = length pre \<and> length dts = length pre \<and>
           display_messages t = display_messages s @ Dict ''user'' ui # map (Dict ''assistant'') rs \<and>
           log_file t = log_file s @ log_line (fst (now env (world s))) ''user'' ui #
                          assistant_lines dts rs"
proof -
  let ?req = "\<lparr>model = ''gpt-5'', msgs = messages (turn_start env ui s), tools_arg = Some tools\<rparr>"
  let ?s1 = "snd (call_create env ?req (turn_start env ui s))"
  let ?t' = "t\<lparr>requests := requests t @
                [\<lparr>model = ''gpt-5'', msgs = messages t @ [Obj m, ToolDict (tc_id tc) res],
                  tools_arg = None\<rparr>],
              world := w\<rparr>"
  from first have f: "create env ?req (world (turn_start env ui s)) = (Inr (m # ms), w1)"
    by simp
  from calls have ne: "requested (tool_calls m) \<noteq> []" by simp
  from before have b: "tool_loop env m pre ?s1 = (None, t)" by simp
  have "try_block env (turn_start env ui s) = tool_loop env m (pre @ tc # post) ?s1"
    using try_block_tool_calls [OF f ne] calls by simp
  also have "\<dots> = (Some e, ?t')"
    by (rule tool_loop_follow_up_raises [OF b res raises])
  finally have u: "user_turn env ui s = except_block env e ?t'"
    by (simp add: user_turn_def)
  from tool_loop_effect [OF b] obtain rs dts
    where ra: "replies_added ?s1 t rs dts" and len: "length rs = length pre"
    by auto
  from ra have es: "errors_shown t = errors_shown s"
    by (simp add: replies_added_def)
  show "display_messages (user_turn env ui s) = display_messages t"
    and "messages (user_turn env ui s) = messages t"
    and "log_file (user_turn env ui s) =
           log_file t @ [log_line (fst (now env w)) ''error'' (str_exn e)]"
    by (simp_all add: u)
  show "errors_shown (user_turn env ui s) =
           errors_shown s @ [cross_mark @ '' API Error: '' @ str_exn e]"
    by (simp add: u es)
  from ra len
  show "\<exists>rs dts. length rs = length pre \<and> length dts = length pre \<and>
           display_messages t = display_messages s @ Dict ''user'' ui # map (Dict ''assistant'') rs \<and>
           log_file t = log_file s @ log_line (fst (now env (world s))) ''user'' ui #
                          assistant_lines dts rs"
    by (intro exI [of _ rs] exI [of _ dts]) (simp add: replies_added_def)
qed

lemma user_turn_plain_reply:
  assumes "create env
             \<lparr>model = ''gpt-5'', msgs = messages s @ [Dict ''user'' ui], tools_arg = Some tools\<rparr>
             (world (turn_start env ui s)) = (Inr (m # ms), w)"
    and "requested (tool_calls m) = []"
  shows "display_messages (user_turn env ui s) =
           display_messages s @
             [Dict ''user'' ui, Dict ''assistant'' (or_else (content m) ''No response.'')]"
    and "messages (user_turn env ui s) =
           messages s @
             [Dict ''user'' ui, Dict ''assistant'' (or_else (content m) ''No response.'')]"
    and "errors_shown (user_turn env ui s) = errors_shown s"
proof -
  from assms(1)
  have "create env
          \<lparr>model = ''gpt-5'', msgs = messages (turn_start env ui s), tools_arg = Some tools\<rparr>
          (world (turn_start env ui s)) = (Inr (m # ms), w)"
    by simp
  from try_block_plain_reply [OF this assms(2)]
  have u: "user_turn env ui s =
      append_reply env (or_else (content m) ''No response.'')
        (snd (call_create env
           \<lparr>model = ''gpt-5'', msgs = messages (turn_start env ui s), tools_arg = Some tools\<rparr>
           (turn_start env ui s)))"
    by (simp add: user_turn_def)
  show "display_messages (user_turn env ui s) =
           display_messages s @
             [Dict ''user'' ui, Dict ''assistant'' (or_else (content m) ''No response.'')]"
    and "messages (user_turn env ui s) =
           messages s @
             [Dict ''user'' ui, Dict ''assistant'' (or_else (content m) ''No response.'')]"
    and "errors_shown (user_turn env ui s) = errors_shown s"
    by (simp_all add: u)
qed

text \<open>
  C4. When a completion call raises, the turn ends there: the display transcript (and the
  transcript) stay as they were immediately before that call, with the user's message,
  appended before the first call, still in them; the error text is shown in the error box
  and the log gains, after the records written so far, exactly one record with the role
  \<open>error\<close>. This holds when the first call raises and when the follow-up call of any of
  the tool calls raises after the calls before it went through. The next run of the
  script is a turn like any other: with a plain answer from the service it appends the
  user's message and the reply.
\<close>

theorem completion_failure_aborts_turn:
  "(create env
      \<lparr>model = ''gpt-5'', msgs = messages s @ [Dict ''user'' ui],
       tools_arg = Some tools\<rparr>
      (world (turn_start env ui s)) =
      (Inl e, w) \<longrightarrow>
      display_messages (user_turn env ui s) =
        display_messages (turn_start env ui s) \<and>
      display_messages (user_turn env ui s) =
        display_messages s @ [Dict ''user'' ui] \<and>
      messages (user_turn env ui s) =
        messages s @ [Dict ''user'' ui] \<and>
      errors_shown (user_turn env ui s) =
        errors_shown s @ [cross_mark @ '' API Error: '' @ str_exn e] \<and>
      log_file (user_turn env ui s) =
        log_file s @
          [log_line (fst (now env (world s))) ''user'' ui,
           log_line (fst (now env w)) ''error'' (str_exn e)]) \<and>
   (create env
      \<lparr>model = ''gpt-5'', msgs = messages s @ [Dict ''user'' ui],
       tools_arg = Some tools\<rparr>
      (world (turn_start env ui s)) =
      (Inr (m # ms), w1) \<and>
    requested (tool_calls m) = pre @ tc # post \<and>
    tool_loop env m pre
      (snd (call_create env
              \<lparr>model = ''gpt-5'', msgs = messages s @ [Dict ''user'' ui],
               tools_arg = Some tools\<rparr>
              (turn_start env ui s))) =
      (None, t) \<and>
    execute_tool tc = Inr res \<and>
    create env
      \<lparr>model = ''gpt-5'',
       msgs = messages t @ [Obj m, ToolDict (tc_id tc) res],
       tools_arg = None\<rparr>
      (world t) =
      (Inl e, w) \<longrightarrow>
      display_messages (user_turn env ui s) = display_messages t \<and>
      messages (user_turn env ui s) = messages t \<and>
      errors_shown (user_turn env ui s) =
        errors_shown s @ [cross_mark @ '' API Error: '' @ str_exn e] \<and>
      log_file (user_turn env ui s) =
        log_file t @ [log_line (fst (now env w)) ''error'' (str_exn e)] \<and>
      (\<exists>rs dts. length rs = length pre \<and> length dts = length pre \<and>
         display_messages t =
           display_messages s @ Dict ''user'' ui # map (Dict ''assistant'') rs \<and>
         log_file t =
           log_file s @
             log_line (fst (now env (world s))) ''user'' ui # assistant_lines dts rs)) \<and>
   (create env
      \<lparr>model = ''gpt-5'', msgs = messages (user_turn env ui s) @ [Dict ''user'' ui2],
       tools_arg = Some tools\<rparr>
      (world (turn_start env ui2 (user_turn env ui s))) =
      (Inr (m2 # ms2), w2) \<and>
    requested (tool_calls m2) = [] \<longrightarrow>
      display_messages (user_turn env ui2 (user_turn env ui s)) =
        display_messages (user_turn env ui s) @
          [Dict ''user'' ui2, Dict ''assistant'' (or_else (content m2) ''No response.'')] \<and>
      messages (user_turn env ui2 (user_turn env ui s)) =
        messages (user_turn env ui s) @
          [Dict ''user'' ui2, Dict ''assistant'' (or_else (content m2) ''No response.'')] \<and>
      errors_shown (user_turn env ui2 (user_turn env ui s)) =
        errors_shown (user_turn env ui s))"
proof -
  have A: "(create env
        \<lparr>model = ''gpt-5'', msgs = messages s @ [Dict ''user'' ui],
         tools_arg = Some tools\<rparr>
        (world (turn_start env ui s)) =
        (Inl e, w) \<longrightarrow>
        display_messages (user_turn env ui s) =
          display_messages (turn_start env ui s) \<and>
        display_messages (user_turn env ui s) =
          display_messages s @ [Dict ''user'' ui] \<and>
        messages (user_turn env ui s) =
          messages s @ [Dict ''user'' ui] \<and>
        errors_shown (user_turn env ui s) =
          errors_shown s @ [cross_mark @ '' API Error: '' @ str_exn e] \<and>
        log_file (user_turn env ui s) =
          log_file s @
            [log_line (fst (now env (world s))) ''user'' ui,
             log_line (fst (now env w)) ''error'' (str_exn e)])"
  proof (rule impI)
    assume a: "create env
           \<lparr>model = ''gpt-5'', msgs = messages s @ [Dict ''user'' ui],
            tools_arg = Some tools\<rparr>
           (world (turn_start env ui s)) =
           (Inl e, w)"
    from user_turn_first_call_raises [OF a]
    show "display_messages (user_turn env ui s) =
           display_messages (turn_start env ui s) \<and>
         display_messages (user_turn env ui s) =
           display_messages s @ [Dict ''user'' ui] \<and>
         messages (user_turn env ui s) =
           messages s @ [Dict ''user'' ui] \<and>
         errors_shown (user_turn env ui s) =
           errors_shown s @ [cross_mark @ '' API Error: '' @ str_exn e] \<and>
         log_file (user_turn env ui s) =
           log_file s @
             [log_line (fst (now env (world s))) ''user'' ui,
              log_line (fst (now env w)) ''error'' (str_exn e)]"
      by (intro conjI)
  qed
  have B: "(create env
        \<lparr>model = ''gpt-5'', msgs = messages s @ [Dict ''user'' ui],
         tools_arg = Some tools\<rparr>
        (world (turn_start env ui s)) =
        (Inr (m # ms), w1) \<and>
      requested (tool_calls m) = pre @ tc # post \<and>
      tool_loop env m pre
        (snd (call_create env
                \<lparr>model = ''gpt-5'', msgs = messages s @ [Dict ''user'' ui],
                 tools_arg = Some tools\<rparr>
                (turn_start env ui s))) =
        (None, t) \<and>
      execute_tool tc = Inr res \<and>
      create env
        \<lparr>model = ''gpt-5'',
         msgs = messages t @ [Obj m, ToolDict (tc_id tc) res],
         tools_arg = None\<rparr>
        (world t) =
        (Inl e, w) \<longrightarrow>
        display_messages (user_turn env ui s) = display_messages t \<and>
        messages (user_turn env ui s) = messages t \<and>
        errors_shown (user_turn env ui s) =
          errors_shown s @ [cross_mark @ '' API Error: '' @ str_exn e] \<and>
        log_file (user_turn env ui s) =
          log_file t @ [log_line (fst (now env w)) ''error'' (str_exn e)] \<and>
        (\<exists>rs dts. length rs = length pre \<and> length dts = length pre \<and>
           display_messages t =
             display_messages s @ Dict ''user'' ui # map (Dict ''assistant'') rs \<and>
           log_file t =
             log_file s @
               log_line (fst (now env (world s))) ''user'' ui # assistant_lines dts rs))"
  proof (rule impI)
    assume b: "create env
           \<lparr>model = ''gpt-5'', msgs = messages s @ [Dict ''user'' ui],
            tools_arg = Some tools\<rparr>
           (world (turn_start env ui s)) =
           (Inr (m # ms), w1) \<and>
         requested (tool_calls m) = pre @ tc # post \<and>
         tool_loop env m pre
           (snd (call_create env
                   \<lparr>model = ''gpt-5'', msgs = messages s @ [Dict ''user'' ui],
                    tools_arg = Some tools\<rparr>
                   (turn_start env ui s))) =
           (None, t) \<and>
         execute_tool tc = Inr res \<and>
         create env
           \<lparr>model = ''gpt-5'',
            msgs = messages t @ [Obj m, ToolDict (tc_id tc) res],
            tools_arg = None\<rparr>
           (world t) =
           (Inl e, w)"
    then have b1: "create env
           \<lparr>model = ''gpt-5'', msgs = messages s @ [Dict ''user'' ui],
            tools_arg = Some tools\<rparr>
           (world (turn_start env ui s)) =
           (Inr (m # ms), w1)"
      and b2: "requested (tool_calls m) = pre @ tc # post"
      and b3: "tool_loop env m pre
           (snd (call_create env
                   \<lparr>model = ''gpt-5'', msgs = messages s @ [Dict ''user'' ui],
                    tools_arg = Some tools\<rparr>
                   (turn_start env ui s))) =
           (None, t)"
      and b4: "execute_tool tc = Inr res"
      and b5: "create env
           \<lparr>model = ''gpt-5'',
            msgs = messages t @ [Obj m, ToolDict (tc_id tc) res],
            tools_arg = None\<rparr>
           (world t) =
           (Inl e, w)"
      by blast+
    from user_turn_follow_up_raises [OF b1 b2 b3 b4 b5]
    show "display_messages (user_turn env ui s) = display_messages t \<and>
         messages (user_turn env ui s) = messages t \<and>
         errors_shown (user_turn env ui s) =
           errors_shown s @ [cross_mark @ '' API Error: '' @ str_exn e] \<and>
         log_file (user_turn env ui s) =
           log_file t @ [log_line (fst (now env w)) ''error'' (str_exn e)] \<and>
         (\<exists>rs dts. length rs = length pre \<and> length dts = length pre \<and>
            display_messages t =
              display_messages s @ Dict ''user'' ui # map (Dict ''assistant'') rs \<and>
            log_file t =
              log_file s @
                log_line (fst (now env (world s))) ''user'' ui # assistant_lines dts rs)"
      by (intro conjI)
  qed
  have C: "(create env
        \<lparr>model = ''gpt-5'', msgs = messages (user_turn env ui s) @ [Dict ''user'' ui2],
         tools_arg = Some tools\<rparr>
        (world (turn_start env ui2 (user_turn env ui s))) =
        (Inr (m2 # ms2), w2) \<and>
      requested (tool_calls m2) = [] \<longrightarrow>
        display_messages (user_turn env ui2 (user_turn env ui s)) =
          display_messages (user_turn env ui s) @
            [Dict ''user'' ui2, Dict ''assistant'' (or_else (content m2) ''No response.'')] \<and>
        messages (user_turn env ui2 (user_turn env ui s)) =
          messages (user_turn env ui s) @
            [Dict ''user'' ui2, Dict ''assistant'' (or_else (content m2) ''No response.'')] \<and>
        errors_shown (user_turn env ui2 (user_turn env ui s)) =
          errors_shown (user_turn env ui s))"
  proof (rule impI)
    assume c: "create env
           \<lparr>model = ''gpt-5'', msgs = messages (user_turn env ui s) @ [Dict ''user'' ui2],
            tools_arg = Some tools\<rparr>
           (world (turn_start env ui2 (user_turn env ui s))) =
           (Inr (m2 # ms2), w2) \<and>
         requested (tool_calls m2) = []"
    then have c1: "create env
           \<lparr>model = ''gpt-5'', msgs = messages (user_turn env ui s) @ [Dict ''user'' ui2],
            tools_arg = Some tools\<rparr>
           (world (turn_start env ui2 (user_turn env ui s))) =
           (Inr (m2 # ms2), w2)"
      and c2: "requested (tool_calls m2) = []"
      by blast+
    from user_turn_plain_reply [OF c1 c2]
    show "display_messages (user_turn env ui2 (user_turn env ui s)) =
           display_messages (user_turn env ui s) @
             [Dict ''user'' ui2, Dict ''assistant'' (or_else (content m2) ''No response.'')] \<and>
         messages (user_turn env ui2 (user_turn env ui s)) =
           messages (user_turn env ui s) @
             [Dict ''user'' ui2, Dict ''assistant'' (or_else (content m2) ''No response.'')] \<and>
         errors_shown (user_turn env ui2 (user_turn env ui s)) =
           errors_shown (user_turn env ui s)"
      by (intro conjI)
  qed
  from A B C show ?thesis by (intro conjI)
qed

theorem completion_failure_aborts_turn_witness:
  "create scripted
     \<lparr>model = ''gpt-5'', msgs = messages offline @ [Dict ''user'' ''Hello''],
      tools_arg = Some tools\<rparr>
     (world (turn_start scripted ''Hello'' offline)) =
     (Inl (APIError ''Connection error.''), []) \<and>
   display_messages (user_turn scripted ''Hello'' offline) =
     display_messages (turn_start scripted ''Hello'' offline) \<and>
   display_messages (user_turn scripted ''Hello'' offline) =
     display_messages offline @ [Dict ''user'' ''Hello''] \<and>
   messages (user_turn scripted ''Hello'' offline) =
     messages offline @ [Dict ''user'' ''Hello''] \<and>
   errors_shown (user_turn scripted ''Hello'' offline) =
     errors_shown offline @ [cross_mark @ '' API Error: '' @
         str_exn (APIError ''Connection error.'')] \<and>
   log_file (user_turn scripted ''Hello'' offline) =
     log_file offline @
       [log_line (fst (now scripted (world offline))) ''user'' ''Hello'',
        log_line (fst (now scripted [])) ''error'' (str_exn (APIError ''Connection error.''))] \<and>
   create scripted
     \<lparr>model = ''gpt-5'', msgs =
         messages two_calls_one_answer @ [Dict ''user'' ''Where is ORD124?''],
      tools_arg = Some tools\<rparr>
     (world (turn_start scripted ''Where is ORD124?'' two_calls_one_answer)) =
     (Inr ((tool_request [order_call, faq_call]) # []), [text_reply ''It was delivered.'']) \<and>
   requested (tool_calls (tool_request [order_call, faq_call])) = [order_call] @ faq_call # [] \<and>
   tool_loop scripted (tool_request [order_call, faq_call]) [order_call]
     (snd (call_create scripted
             \<lparr>model = ''gpt-5'', msgs =
                 messages two_calls_one_answer @ [Dict ''user'' ''Where is ORD124?''],
              tools_arg = Some tools\<rparr>
             (turn_start scripted ''Where is ORD124?'' two_calls_one_answer))) =
     (None, after_first_call) \<and>
   execute_tool faq_call = Inr ''Refunds are available within 30 days of purchase.'' \<and>
   create scripted
     \<lparr>model = ''gpt-5'',
      msgs = messages after_first_call @
          [Obj (tool_request [order_call, faq_call]),
          ToolDict (tc_id faq_call) ''Refunds are available within 30 days of purchase.''],
      tools_arg = None\<rparr>
     (world after_first_call) =
     (Inl (APIError ''Connection error.''), []) \<and>
   display_messages (user_turn scripted ''Where is ORD124?'' two_calls_one_answer) =
       display_messages after_first_call \<and>
   messages (user_turn scripted ''Where is ORD124?'' two_calls_one_answer) =
       messages after_first_call \<and>
   errors_shown (user_turn scripted ''Where is ORD124?'' two_calls_one_answer) =
     errors_shown two_calls_one_answer @ [cross_mark @ '' API Error: '' @
         str_exn (APIError ''Connection error.'')] \<and>
   log_file (user_turn scripted ''Where is ORD124?'' two_calls_one_answer) =
     log_file after_first_call @
         [log_line (fst (now scripted [])) ''error'' (str_exn
         (APIError ''Connection error.''))] \<and>
   (\<exists>rs dts. length rs = length [order_call] \<and> length dts = length [order_call] \<and>
      display_messages after_first_call =
        display_messages two_calls_one_answer @
            Dict ''user'' ''Where is ORD124?'' # map (Dict ''assistant'') rs \<and>
      log_file after_first_call =
        log_file two_calls_one_answer @
          log_line (fst (now scripted
              (world two_calls_one_answer))) ''user'' ''Where is ORD124?'' #
              assistant_lines dts rs) \<and>
   create scripted
     \<lparr>model = ''gpt-5'', msgs =
         messages (user_turn scripted ''Hello'' fails_then_answers) @
         [Dict ''user'' ''Hello again''],
      tools_arg = Some tools\<rparr>
     (world (turn_start scripted ''Hello again'' (user_turn scripted ''Hello'' fails_then_answers))) =
     (Inr (\<lparr>content = Some ''Hi!'', tool_calls = None\<rparr> # []), []) \<and>
   requested (tool_calls \<lparr>content = Some ''Hi!'', tool_calls = None\<rparr>) = [] \<and>
   display_messages (user_turn scripted ''Hello again''
       (user_turn scripted ''Hello'' fails_then_answers)) =
     display_messages (user_turn scripted ''Hello'' fails_then_answers) @
       [Dict ''user'' ''Hello again'', Dict ''assistant'' (or_else (content \<lparr>content =
           Some ''Hi!'', tool_calls = None\<rparr>) ''No response.'')] \<and>
   messages (user_turn scripted ''Hello again'' (user_turn scripted ''Hello'' fails_then_answers)) =
     messages (user_turn scripted ''Hello'' fails_then_answers) @
       [Dict ''user'' ''Hello again'', Dict ''assistant'' (or_else (content \<lparr>content =
           Some ''Hi!'', tool_calls = None\<rparr>) ''No response.'')] \<and>
   errors_shown (user_turn scripted ''Hello again'' (user_turn scripted ''Hello'' fails_then_answers)) =
     errors_shown (user_turn scripted ''Hello'' fails_then_answers)"
proof -
  have a: "create scripted
       \<lparr>model = ''gpt-5'', msgs = messages offline @ [Dict ''user'' ''Hello''],
        tools_arg = Some tools\<rparr>
       (world (turn_start scripted ''Hello'' offline)) =
       (Inl (APIError ''Connection error.''), [])"
    by code_simp
  have b1: "create scripted
       \<lparr>model = ''gpt-5'', msgs =
           messages two_calls_one_answer @ [Dict ''user'' ''Where is ORD124?''],
        tools_arg = Some tools\<rparr>
       (world (turn_start scripted ''Where is ORD124?'' two_calls_one_answer)) =
       (Inr ((tool_request [order_call, faq_call]) # []), [text_reply ''It was delivered.''])"
    by code_simp
  have b2: "requested (tool_calls (tool_request [order_call, faq_call])) = [order_call] @ faq_call # []"
    by code_simp
  have b3: "tool_loop scripted (tool_request [order_call, faq_call]) [order_call]
       (snd (call_create scripted
               \<lparr>model = ''gpt-5'', msgs =
                   messages two_calls_one_answer @ [Dict ''user'' ''Where is ORD124?''],
                tools_arg = Some tools\<rparr>
               (turn_start scripted ''Where is ORD124?'' two_calls_one_answer))) =
       (None, after_first_call)"
    by code_simp
  have b4: "execute_tool faq_call = Inr ''Refunds are available within 30 days of purchase.''"
    by code_simp
  have b5: "create scripted
       \<lparr>model = ''gpt-5'',
        msgs = messages after_first_call @
            [Obj (tool_request [order_call, faq_call]),
            ToolDict (tc_id faq_call) ''Refunds are available within 30 days of purchase.''],
        tools_arg = None\<rparr>
       (world after_first_call) =
       (Inl (APIError ''Connection error.''), [])"
    by code_simp
  have c1: "create scripted
       \<lparr>model = ''gpt-5'', msgs =
           messages (user_turn scripted ''Hello'' fails_then_answers) @
           [Dict ''user'' ''Hello again''],
        tools_arg = Some tools\<rparr>
       (world (turn_start scripted ''Hello again'' (user_turn scripted ''Hello'' fails_then_answers))) =
       (Inr (\<lparr>content = Some ''Hi!'', tool_calls = None\<rparr> # []), [])"
    by code_simp
  have c2: "requested (tool_calls \<lparr>content = Some ''Hi!'', tool_calls = None\<rparr>) = []"
    by code_simp
  note ra = completion_failure_aborts_turn [THEN conjunct1, THEN mp, OF a]
  note rb = completion_failure_aborts_turn [THEN conjunct2, THEN conjunct1, THEN mp,
      OF conjI [OF b1 conjI [OF b2 conjI [OF b3 conjI [OF b4 b5]]]]]
  note rc = completion_failure_aborts_turn [THEN conjunct2, THEN conjunct2, THEN mp,
      OF conjI [OF c1 c2]]
  from a ra b1 b2 b3 b4 b5 rb c1 c2 rc show ?thesis
    by (elim conjE) (intro conjI)
qed

section \<open>Tool calls\<close>

lemma execute_tool_unknown:
  "tc_arguments tc = Inr v \<Longrightarrow> tc_name tc \<noteq> ''lookup_faq'' \<Longrightarrow>
   tc_name tc \<noteq> ''get_order_status'' \<Longrightarrow> execute_tool tc = Inr ''Tool not implemented.''"
  by (simp add: execute_tool_def)

lemma execute_tool_lookup_faq:
  "tc_arguments tc = Inr (JDict kv) \<Longrightarrow> tc_name tc = ''lookup_faq'' \<Longrightarrow>
   execute_tool tc = call_lookup_faq (case map_of kv ''query'' of None \<Rightarrow> JStr [] | Some v \<Rightarrow> v)"
  by (simp add: execute_tool_def)

lemma execute_tool_get_order_status:
  "tc_arguments tc = Inr (JDict kv) \<Longrightarrow> tc_name tc = ''get_order_status'' \<Longrightarrow>
   execute_tool tc =
     call_get_order_status (case map_of kv ''order_id'' of None \<Rightarrow> JStr [] | Some v \<Rightarrow> v)"
  by (simp add: execute_tool_def)

lemma execute_tool_undecodable: "tc_arguments tc = Inl e \<Longrightarrow> execute_tool tc = Inl e"
  by (simp add: execute_tool_def)

lemma handle_tool_call_result:
  "execute_tool tc = Inr result \<Longrightarrow>
   handle_tool_call env message tc s = follow_up env message tc result s"
  by (simp add: handle_tool_call_def)

lemma follow_up_request_sent:
  "requests (snd (follow_up env message tc result s)) =
     requests s @ [\<lparr>model = ''gpt-5'', msgs = messages s @ [Obj message, ToolDict (tc_id tc) result],
                    tools_arg = None\<rparr>]"
proof -
  obtain a w where c: "create env
      \<lparr>model = ''gpt-5'', msgs = messages s @ [Obj message, ToolDict (tc_id tc) result],
       tools_arg = None\<rparr> (world s) = (a, w)"
    by (cases "create env
      \<lparr>model = ''gpt-5'', msgs = messages s @ [Obj message, ToolDict (tc_id tc) result],
       tools_arg = None\<rparr> (world s)")
  show ?thesis
  proof (cases a)
    case (Inl e)
    with c show ?thesis
      by (simp add: follow_up_def follow_up_messages_def call_create_def)
  next
    case (Inr completion)
    with c show ?thesis
      by (cases "first_choice completion")
         (simp_all add: follow_up_def follow_up_messages_def call_create_def)
  qed
qed

lemma follow_up_answered:
  assumes "create env
      \<lparr>model = ''gpt-5'', msgs = messages s @ [Obj message, ToolDict (tc_id tc) result],
       tools_arg = None\<rparr> (world s) = (Inr (final_msg # rest), w)"
  shows "follow_up env message tc result s =
    (None, append_reply env (or_else (content final_msg) result)
       (s\<lparr>requests := requests s @
            [\<lparr>model = ''gpt-5'', msgs = messages s @ [Obj message, ToolDict (tc_id tc) result],
              tools_arg = None\<rparr>],
          world := w\<rparr>))"
  using assms by (simp add: follow_up_def follow_up_messages_def call_create_def)

lemma or_else_case:
  "or_else c d = (case c of None \<Rightarrow> d | Some t \<Rightarrow> if t = [] then d else t)"
  by (cases c) simp_all

text \<open>A tool call that goes through: its result, the request sent and the reply appended.\<close>

lemma handle_tool_call_ok:
  assumes "handle_tool_call env m tc s = (None, s1)"
  shows "\<exists>result reply.
     execute_tool tc = Inr result \<and>
     messages s1 = messages s @ [Dict ''assistant'' reply] \<and>
     display_messages s1 = display_messages s @ [Dict ''assistant'' reply] \<and>
     requests s1 = requests s @
       [\<lparr>model = ''gpt-5'', msgs = messages s @ [Obj m, ToolDict (tc_id tc) result],
         tools_arg = None\<rparr>]"
proof (cases "execute_tool tc")
  case (Inl e)
  with assms show ?thesis by (simp add: handle_tool_call_def)
next
  case (Inr result)
  with assms have f: "follow_up env m tc result s = (None, s1)"
    by (simp add: handle_tool_call_def)
  let ?req = "\<lparr>model = ''gpt-5'', msgs = messages s @ [Obj m, ToolDict (tc_id tc) result],
                tools_arg = None\<rparr>"
  obtain a w where c: "create env ?req (world s) = (a, w)"
    by (cases "create env ?req (world s)")
  show ?thesis
  proof (cases a)
    case (Inl e)
    with c f show ?thesis
      by (simp add: follow_up_def follow_up_messages_def call_create_def)
  next
    case inr: (Inr completion)
    show ?thesis
    proof (cases completion)
      case Nil
      with c f inr show ?thesis
        by (simp add: follow_up_def follow_up_messages_def call_create_def)
    next
      case (Cons final_msg rest)
      with c inr have "create env ?req (world s) = (Inr (final_msg # rest), w)" by simp
      from follow_up_answered [OF this] f
      have "s1 = append_reply env (or_else (content final_msg) result)
          (s\<lparr>requests := requests s @ [?req], world := w\<rparr>)"
        by simp
      then have "messages s1 = messages s @ [Dict ''assistant'' (or_else (content final_msg) result)]"
        and "display_messages s1 =
          display_messages s @ [Dict ''assistant'' (or_else (content final_msg) result)]"
        and "requests s1 = requests s @ [?req]"
        by simp_all
      with Inr show ?thesis by blast
    qed
  qed
qed

lemma tool_loop_ok:
  "tool_loop env m tcs s = (None, s') \<Longrightarrow>
   \<exists>results rs.
     length results = length tcs \<and> length rs = length tcs \<and>
     map execute_tool tcs = map Inr results \<and>
     messages s' = messages s @ map (Dict ''assistant'') rs \<and>
     display_messages s' = display_messages s @ map (Dict ''assistant'') rs \<and>
     requests s' = requests s @ follow_up_requests (messages s) m (zip tcs (zip results rs))"
proof (induction tcs arbitrary: s)
  case Nil
  then have "s' = s" by simp
  then show ?case by simp
next
  case (Cons tc tcs)
  obtain r1 s1 where h: "handle_tool_call env m tc s = (r1, s1)"
    by (cases "handle_tool_call env m tc s")
  show ?case
  proof (cases r1)
    case (Some e)
    with Cons.prems h show ?thesis by simp
  next
    case None
    with Cons.prems h have rest: "tool_loop env m tcs s1 = (None, s')" by simp
    from h None have "handle_tool_call env m tc s = (None, s1)" by simp
    from handle_tool_call_ok [OF this] obtain result reply
      where ex: "execute_tool tc = Inr result"
        and ms: "messages s1 = messages s @ [Dict ''assistant'' reply]"
        and ds: "display_messages s1 = display_messages s @ [Dict ''assistant'' reply]"
        and rq: "requests s1 = requests s @
           [\<lparr>model = ''gpt-5'', msgs = messages s @ [Obj m, ToolDict (tc_id tc) result],
             tools_arg = None\<rparr>]"
      by blast
    from Cons.IH [OF rest] obtain results rs
      where l1: "length results = length tcs" and l2: "length rs = length tcs"
        and exs: "map execute_tool tcs = map Inr results"
        and ms': "messages s' = messages s1 @ map (Dict ''assistant'') rs"
        and ds': "display_messages s' = display_messages s1 @ map (Dict ''assistant'') rs"
        and rq': "requests s' = requests s1 @
           follow_up_requests (messages s1) m (zip tcs (zip results rs))"
      by blast
    show ?thesis
    proof (rule exI [of _ "result # results"], rule exI [of _ "reply # rs"], intro conjI)
      show "length (result # results) = length (tc # tcs)" using l1 by simp
      show "length (reply # rs) = length (tc # tcs)" using l2 by simp
      show "map execute_tool (tc # tcs) = map Inr (result # results)" using ex exs by simp
      show "messages s' = messages s @ map (Dict ''assistant'') (reply # rs)"
        using ms ms' by simp
      show "display_messages s' = display_messages s @ map (Dict ''assistant'') (reply # rs)"
        using ds ds' by simp
      show "requests s' = requests s @
          follow_up_requests (messages s) m (zip (tc # tcs) (zip (result # results) (reply # rs)))"
        using rq rq' ms by simp
    qed
  qed
qed

lemma last_msgs_follow_up_requests:
  "map (\<lambda>q. last (msgs q)) (follow_up_requests ms m xs) =
   map (\<lambda>(tc, result, reply). ToolDict (tc_id tc) result) xs"
  by (induction ms m xs rule: follow_up_requests.induct) simp_all

lemma tools_arg_follow_up_requests:
  "map tools_arg (follow_up_requests ms m xs) = replicate (length xs) None"
  by (induction ms m xs rule: follow_up_requests.induct) simp_all

lemma user_turn_without_error:
  assumes "errors_shown (user_turn env ui s) = errors_shown s"
  shows "try_block env (turn_start env ui s) = (None, user_turn env ui s)"
proof -
  obtain r s1 where t: "try_block env (turn_start env ui s) = (r, s1)"
    by (cases "try_block env (turn_start env ui s)")
  from try_block_effect [OF t] obtain rs dts
    where "replies_added (turn_start env ui s) s1 rs dts" by blast
  then have es: "errors_shown s1 = errors_shown s" by (simp add: replies_added_def)
  show ?thesis
  proof (cases r)
    case None
    with t show ?thesis by (simp add: user_turn_def)
  next
    case (Some e)
    with t have "user_turn env ui s = except_block env e s1" by (simp add: user_turn_def)
    then have "errors_shown (user_turn env ui s) =
        errors_shown s @ [cross_mark @ '' API Error: '' @ str_exn e]"
      by (simp add: es)
    with assms show ?thesis by simp
  qed
qed

text \<open>
  C9. \<open>lookup_faq\<close> on the empty string never gives the not-found sentence: the empty
  string occurs in every string and the FAQ table is not empty, so the result is the
  answer of the first entry, "Go to Account Settings \<rightarrow> Security \<rightarrow> Reset Password.".
  Hence a tool call of \<open>lookup_faq\<close> whose arguments lack the key \<open>query\<close> gives that
  answer.
\<close>

theorem lookup_faq_empty_query:
  "str_in (lower []) t \<and>
   faq_data \<noteq> [] \<and>
   lookup_faq [] =
     ''Go to Account Settings '' @ arrow @ '' Security '' @ arrow @ '' Reset Password.'' \<and>
   lookup_faq [] \<noteq> ''Sorry, I couldn't find that information.'' \<and>
   (tc_name tc = ''lookup_faq'' \<and> tc_arguments tc = Inr (JDict kv) \<and>
    map_of kv ''query'' = None \<longrightarrow>
      execute_tool tc =
        Inr (''Go to Account Settings '' @ arrow @ '' Security '' @ arrow @ '' Reset Password.''))"
proof -
  have a: "str_in (lower []) t"
    by (simp add: lower_def str_in_empty)
  have b: "faq_data \<noteq> []"
    by (simp add: faq_data_def)
  have c: "lookup_faq [] =
      ''Go to Account Settings '' @ arrow @ '' Security '' @ arrow @ '' Reset Password.''"
    by (simp add: lookup_faq_def faq_data_def lower_def str_in_empty)
  have d: "lookup_faq [] \<noteq> ''Sorry, I couldn't find that information.''"
    by (simp add: c)
  have e: "tc_name tc = ''lookup_faq'' \<and> tc_arguments tc = Inr (JDict kv) \<and>
    map_of kv ''query'' = None \<longrightarrow>
      execute_tool tc =
        Inr (''Go to Account Settings '' @ arrow @ '' Security '' @ arrow @ '' Reset Password.'')"
  proof (intro impI, elim conjE)
    assume n: "tc_name tc = ''lookup_faq''" and v: "tc_arguments tc = Inr (JDict kv)"
      and k: "map_of kv ''query'' = None"
    from execute_tool_lookup_faq [OF v n] k have "execute_tool tc = Inr (lookup_faq [])"
      by simp
    then show "execute_tool tc =
        Inr (''Go to Account Settings '' @ arrow @ '' Security '' @ arrow @ '' Reset Password.'')"
      by (simp only: c)
  qed
  from a b c d e show ?thesis by (intro conjI)
qed

theorem lookup_faq_empty_query_witness:
  "tc_name faq_call_without_query = ''lookup_faq'' \<and>
   tc_arguments faq_call_without_query = Inr (JDict [(''topic'', JStr ''password'')]) \<and>
   map_of [(''topic'', JStr ''password'')] ''query'' = None \<and>
   execute_tool faq_call_without_query =
     Inr (''Go to Account Settings '' @ arrow @ '' Security '' @ arrow @ '' Reset Password.'')"
proof -
  have n: "tc_name faq_call_without_query = ''lookup_faq''"
    by (simp add: faq_call_without_query_def)
  have v: "tc_arguments faq_call_without_query = Inr (JDict [(''topic'', JStr ''password'')])"
    by (simp add: faq_call_without_query_def)
  have k: "map_of [(''topic'', JStr ''password'')] ''query'' = None"
    by simp
  note r = lookup_faq_empty_query [THEN conjunct2, THEN conjunct2, THEN conjunct2,
      THEN conjunct2, THEN mp, OF conjI [OF n conjI [OF v k]]]
  from n v k r show ?thesis by (intro conjI)
qed

text \<open>
  C7, as amended. For every tool call whose argument text decodes, the name is resolved
  over exactly the two known tools: \<open>lookup_faq\<close> and \<open>get_order_status\<close> are called with
  the value under their key, any other name gives the fixed result
  "Tool not implemented." without failing the turn, and for a known tool whose arguments
  are an object without the expected key the argument is the empty string, with no
  validation error. In each of these cases the turn goes on to the follow-up call with
  that result. The arguments are decoded before the name is looked at: a text that does
  not decode raises, whatever the name.
\<close>

theorem tool_resolution:
  "(tc_arguments tc = Inr v \<and> tc_name tc \<noteq> ''lookup_faq'' \<and>
    tc_name tc \<noteq> ''get_order_status'' \<longrightarrow>
      execute_tool tc = Inr ''Tool not implemented.'') \<and>
   (tc_arguments tc = Inr (JDict kv) \<and> tc_name tc = ''lookup_faq'' \<longrightarrow>
      execute_tool tc =
        call_lookup_faq (case map_of kv ''query'' of None \<Rightarrow> JStr [] | Some q \<Rightarrow> q)) \<and>
   (tc_arguments tc = Inr (JDict kv) \<and> tc_name tc = ''get_order_status'' \<longrightarrow>
      execute_tool tc =
        call_get_order_status (case map_of kv ''order_id'' of None \<Rightarrow> JStr [] | Some q \<Rightarrow> q)) \<and>
   (tc_arguments tc = Inr (JDict kv) \<and> tc_name tc = ''lookup_faq'' \<and>
    map_of kv ''query'' = None \<longrightarrow>
      execute_tool tc = Inr (lookup_faq [])) \<and>
   (tc_arguments tc = Inr (JDict kv) \<and> tc_name tc = ''get_order_status'' \<and>
    map_of kv ''order_id'' = None \<longrightarrow>
      execute_tool tc = Inr (get_order_status [])) \<and>
   (execute_tool tc = Inr result \<longrightarrow>
      handle_tool_call env message tc s = follow_up env message tc result s \<and>
      requests (snd (handle_tool_call env message tc s)) =
        requests s @
          [\<lparr>model = ''gpt-5'', msgs = messages s @ [Obj message, ToolDict (tc_id tc) result],
            tools_arg = None\<rparr>]) \<and>
   (tc_arguments tc = Inl e \<longrightarrow>
      execute_tool tc = Inl e \<and> handle_tool_call env message tc s = (Some e, s))"
proof -
  have a: "tc_arguments tc = Inr v \<and> tc_name tc \<noteq> ''lookup_faq'' \<and>
    tc_name tc \<noteq> ''get_order_status'' \<longrightarrow>
      execute_tool tc = Inr ''Tool not implemented.''"
    using execute_tool_unknown [of tc v] by blast
  have b: "tc_arguments tc = Inr (JDict kv) \<and> tc_name tc = ''lookup_faq'' \<longrightarrow>
      execute_tool tc =
        call_lookup_faq (case map_of kv ''query'' of None \<Rightarrow> JStr [] | Some q \<Rightarrow> q)"
    using execute_tool_lookup_faq [of tc kv] by blast
  have c: "tc_arguments tc = Inr (JDict kv) \<and> tc_name tc = ''get_order_status'' \<longrightarrow>
      execute_tool tc =
        call_get_order_status (case map_of kv ''order_id'' of None \<Rightarrow> JStr [] | Some q \<Rightarrow> q)"
    using execute_tool_get_order_status [of tc kv] by blast
  have d: "tc_arguments tc = Inr (JDict kv) \<and> tc_name tc = ''lookup_faq'' \<and>
    map_of kv ''query'' = None \<longrightarrow>
      execute_tool tc = Inr (lookup_faq [])"
    using execute_tool_lookup_faq [of tc kv] by auto
  have e: "tc_arguments tc = Inr (JDict kv) \<and> tc_name tc = ''get_order_status'' \<and>
    map_of kv ''order_id'' = None \<longrightarrow>
      execute_tool tc = Inr (get_order_status [])"
    using execute_tool_get_order_status [of tc kv] by auto
  have f: "execute_tool tc = Inr result \<longrightarrow>
      handle_tool_call env message tc s = follow_up env message tc result s \<and>
      requests (snd (handle_tool_call env message tc s)) =
        requests s @
          [\<lparr>model = ''gpt-5'', msgs = messages s @ [Obj message, ToolDict (tc_id tc) result],
            tools_arg = None\<rparr>]"
    by (simp add: handle_tool_call_result follow_up_request_sent)
  have g: "tc_arguments tc = Inl e \<longrightarrow>
      execute_tool tc = Inl e \<and> handle_tool_call env message tc s = (Some e, s)"
    by (simp add: execute_tool_undecodable handle_tool_call_def)
  from a b c d e f g show ?thesis by (intro conjI)
qed

theorem tool_resolution_witness:
  "tc_arguments unknown_call = Inr (JDict [(''order_id'', JStr ''ORD123'')]) \<and>
   tc_name unknown_call \<noteq> ''lookup_faq'' \<and>
   tc_name unknown_call \<noteq> ''get_order_status'' \<and>
   execute_tool unknown_call = Inr ''Tool not implemented.'' \<and>
   tc_arguments faq_call_without_query = Inr (JDict [(''topic'', JStr ''password'')]) \<and>
   tc_name faq_call_without_query = ''lookup_faq'' \<and>
   map_of [(''topic'', JStr ''password'')] ''query'' = None \<and>
   execute_tool faq_call_without_query = Inr (lookup_faq []) \<and>
   tc_arguments order_call_without_id = Inr (JDict []) \<and>
   tc_name order_call_without_id = ''get_order_status'' \<and>
   map_of ([] :: (string \<times> json) list) ''order_id'' = None \<and>
   execute_tool order_call_without_id = Inr (get_order_status []) \<and>
   get_order_status [] = ''Order ID  not found.'' \<and>
   requests (snd (handle_tool_call scripted (tool_request [unknown_call]) unknown_call offline)) =
     requests offline @
       [\<lparr>model = ''gpt-5'',
         msgs = messages offline @
           [Obj (tool_request [unknown_call]),
            ToolDict (tc_id unknown_call) ''Tool not implemented.''],
         tools_arg = None\<rparr>] \<and>
   tc_arguments undecodable_call =
     Inl (JSONDecodeError ''Expecting value: line 1 column 1 (char 0)'') \<and>
   execute_tool undecodable_call =
     Inl (JSONDecodeError ''Expecting value: line 1 column 1 (char 0)'')"
proof -
  have u1: "tc_arguments unknown_call = Inr (JDict [(''order_id'', JStr ''ORD123'')])"
    and u2: "tc_name unknown_call \<noteq> ''lookup_faq''"
    and u3: "tc_name unknown_call \<noteq> ''get_order_status''"
    by (simp_all add: unknown_call_def)
  note ru = tool_resolution [THEN conjunct1, THEN mp, OF conjI [OF u1 conjI [OF u2 u3]]]
  have f1: "tc_arguments faq_call_without_query = Inr (JDict [(''topic'', JStr ''password'')])"
    and f2: "tc_name faq_call_without_query = ''lookup_faq''"
    by (simp_all add: faq_call_without_query_def)
  have f3: "map_of [(''topic'', JStr ''password'')] ''query'' = None"
    by simp
  note rf = tool_resolution [THEN conjunct2, THEN conjunct2, THEN conjunct2, THEN conjunct1,
      THEN mp, OF conjI [OF f1 conjI [OF f2 f3]]]
  have o1: "tc_arguments order_call_without_id = Inr (JDict [])"
    and o2: "tc_name order_call_without_id = ''get_order_status''"
    by (simp_all add: order_call_without_id_def)
  have o3: "map_of ([] :: (string \<times> json) list) ''order_id'' = None"
    by simp
  note ro = tool_resolution [THEN conjunct2, THEN conjunct2, THEN conjunct2, THEN conjunct2,
      THEN conjunct1, THEN mp, OF conjI [OF o1 conjI [OF o2 o3]]]
  have oe: "get_order_status [] = ''Order ID  not found.''"
    by code_simp
  note rr = tool_resolution [THEN conjunct2, THEN conjunct2, THEN conjunct2, THEN conjunct2,
      THEN conjunct2, THEN conjunct1, THEN mp, OF ru, THEN conjunct2]
  have d1: "tc_arguments undecodable_call =
      Inl (JSONDecodeError ''Expecting value: line 1 column 1 (char 0)'')"
    by (simp add: undecodable_call_def)
  note rd = tool_resolution [THEN conjunct2, THEN conjunct2, THEN conjunct2, THEN conjunct2,
      THEN conjunct2, THEN conjunct2, THEN mp, OF d1, THEN conjunct1]
  from u1 u2 u3 ru f1 f2 f3 rf o1 o2 o3 ro oe rr d1 rd show ?thesis
    by (intro conjI)
qed

theorem unknown_tool_undecodable_counterexample:
  "tc_name undecodable_call \<noteq> ''lookup_faq'' \<and>
   tc_name undecodable_call \<noteq> ''get_order_status'' \<and>
   execute_tool undecodable_call =
     Inl (JSONDecodeError ''Expecting value: line 1 column 1 (char 0)'') \<and>
   execute_tool undecodable_call \<noteq> Inr ''Tool not implemented.'' \<and>
   display_messages (user_turn scripted ''Cancel my order'' asks_undecodable) =
     [Dict ''user'' ''Cancel my order''] \<and>
   errors_shown (user_turn scripted ''Cancel my order'' asks_undecodable) =
     [cross_mark @ '' API Error: Expecting value: line 1 column 1 (char 0)''] \<and>
   length (requests (user_turn scripted ''Cancel my order'' asks_undecodable)) = 1 \<and>
   execute_tool null_arguments_call = Inl (AttributeError ''NoneType'' ''get'')"
proof -
  have a: "tc_name undecodable_call \<noteq> ''lookup_faq''"
    and b: "tc_name undecodable_call \<noteq> ''get_order_status''"
    by (simp_all add: undecodable_call_def)
  have c: "execute_tool undecodable_call =
     Inl (JSONDecodeError ''Expecting value: line 1 column 1 (char 0)'')"
    by (simp add: undecodable_call_def execute_tool_def)
  then have d: "execute_tool undecodable_call \<noteq> Inr ''Tool not implemented.''"
    by simp
  have e: "display_messages (user_turn scripted ''Cancel my order'' asks_undecodable) =
     [Dict ''user'' ''Cancel my order'']"
    by code_simp
  have f: "errors_shown (user_turn scripted ''Cancel my order'' asks_undecodable) =
     [cross_mark @ '' API Error: Expecting value: line 1 column 1 (char 0)'']"
    by code_simp
  have g: "length (requests (user_turn scripted ''Cancel my order'' asks_undecodable)) = 1"
    by code_simp
  have h: "execute_tool null_arguments_call = Inl (AttributeError ''NoneType'' ''get'')"
    by (simp add: null_arguments_call_def execute_tool_def)
  from a b c d e f g h show ?thesis by (intro conjI)
qed

text \<open>
  C8. For every tool call handled in a turn, the follow-up request holds the transcript as
  stored at that moment, then the message of the model that carries the tool calls, then
  one tool-result message with the id of the call and the result; it is sent without the
  tool catalog. The reply adopted is the text of the first choice of the answer, or the
  tool result itself when that text is absent or empty. Over a run of tool calls there
  is one such request per call, in the order of the calls.
\<close>

theorem follow_up_request_and_reply:
  "(execute_tool tc = Inr result \<longrightarrow>
      requests (snd (handle_tool_call env message tc s)) =
        requests s @
          [\<lparr>model = ''gpt-5'', msgs = messages s @ [Obj message, ToolDict (tc_id tc) result],
            tools_arg = None\<rparr>]) \<and>
   (execute_tool tc = Inr result \<and>
    create env
      \<lparr>model = ''gpt-5'', msgs = messages s @ [Obj message, ToolDict (tc_id tc) result],
       tools_arg = None\<rparr> (world s) = (Inr (final_msg # rest), w) \<longrightarrow>
      fst (handle_tool_call env message tc s) = None \<and>
      messages (snd (handle_tool_call env message tc s)) =
        messages s @
          [Dict ''assistant''
            (case content final_msg of None \<Rightarrow> result
             | Some c \<Rightarrow> if c = [] then result else c)] \<and>
      display_messages (snd (handle_tool_call env message tc s)) =
        display_messages s @
          [Dict ''assistant''
            (case content final_msg of None \<Rightarrow> result
             | Some c \<Rightarrow> if c = [] then result else c)]) \<and>
   (tool_loop env message tcs s = (None, s') \<longrightarrow>
      (\<exists>results rs.
         length results = length tcs \<and> length rs = length tcs \<and>
         map execute_tool tcs = map Inr results \<and>
         messages s' = messages s @ map (Dict ''assistant'') rs \<and>
         requests s' =
           requests s @ follow_up_requests (messages s) message (zip tcs (zip results rs)) \<and>
         map tools_arg (follow_up_requests (messages s) message (zip tcs (zip results rs))) =
           replicate (length tcs) None))"
proof -
  have a: "execute_tool tc = Inr result \<longrightarrow>
      requests (snd (handle_tool_call env message tc s)) =
        requests s @
          [\<lparr>model = ''gpt-5'', msgs = messages s @ [Obj message, ToolDict (tc_id tc) result],
            tools_arg = None\<rparr>]"
    by (simp add: handle_tool_call_result follow_up_request_sent)
  have b: "execute_tool tc = Inr result \<and>
    create env
      \<lparr>model = ''gpt-5'', msgs = messages s @ [Obj message, ToolDict (tc_id tc) result],
       tools_arg = None\<rparr> (world s) = (Inr (final_msg # rest), w) \<longrightarrow>
      fst (handle_tool_call env message tc s) = None \<and>
      messages (snd (handle_tool_call env message tc s)) =
        messages s @
          [Dict ''assistant''
            (case content final_msg of None \<Rightarrow> result
             | Some c \<Rightarrow> if c = [] then result else c)] \<and>
      display_messages (snd (handle_tool_call env message tc s)) =
        display_messages s @
          [Dict ''assistant''
            (case content final_msg of None \<Rightarrow> result
             | Some c \<Rightarrow> if c = [] then result else c)]"
  proof (intro impI, elim conjE)
    assume x: "execute_tool tc = Inr result"
      and c: "create env
        \<lparr>model = ''gpt-5'', msgs = messages s @ [Obj message, ToolDict (tc_id tc) result],
         tools_arg = None\<rparr> (world s) = (Inr (final_msg # rest), w)"
    have h: "handle_tool_call env message tc s =
      (None, append_reply env (or_else (content final_msg) result)
         (s\<lparr>requests := requests s @
              [\<lparr>model = ''gpt-5'', msgs = messages s @ [Obj message, ToolDict (tc_id tc) result],
                tools_arg = None\<rparr>],
            world := w\<rparr>))"
      unfolding handle_tool_call_result [OF x] by (rule follow_up_answered [OF c])
    show "fst (handle_tool_call env message tc s) = None \<and>
      messages (snd (handle_tool_call env message tc s)) =
        messages s @
          [Dict ''assistant''
            (case content final_msg of None \<Rightarrow> result
             | Some c \<Rightarrow> if c = [] then result else c)] \<and>
      display_messages (snd (handle_tool_call env message tc s)) =
        display_messages s @
          [Dict ''assistant''
            (case content final_msg of None \<Rightarrow> result
             | Some c \<Rightarrow> if c = [] then result else c)]"
      by (simp add: h or_else_case)
  qed
  have c: "tool_loop env message tcs s = (None, s') \<longrightarrow>
      (\<exists>results rs.
         length results = length tcs \<and> length rs = length tcs \<and>
         map execute_tool tcs = map Inr results \<and>
         messages s' = messages s @ map (Dict ''assistant'') rs \<and>
         requests s' =
           requests s @ follow_up_requests (messages s) message (zip tcs (zip results rs)) \<and>
         map tools_arg (follow_up_requests (messages s) message (zip tcs (zip results rs))) =
           replicate (length tcs) None)"
  proof
    assume "tool_loop env message tcs s = (None, s')"
    from tool_loop_ok [OF this] obtain results rs
      where l1: "length results = length tcs" and l2: "length rs = length tcs"
        and ex: "map execute_tool tcs = map Inr results"
        and ms: "messages s' = messages s @ map (Dict ''assistant'') rs"
        and rq: "requests s' =
           requests s @ follow_up_requests (messages s) message (zip tcs (zip results rs))"
      by blast
    from l1 l2
    have "map tools_arg (follow_up_requests (messages s) message (zip tcs (zip results rs))) =
        replicate (length tcs) None"
      by (simp add: tools_arg_follow_up_requests)
    with l1 l2 ex ms rq show "\<exists>results rs.
         length results = length tcs \<and> length rs = length tcs \<and>
         map execute_tool tcs = map Inr results \<and>
         messages s' = messages s @ map (Dict ''assistant'') rs \<and>
         requests s' =
           requests s @ follow_up_requests (messages s) message (zip tcs (zip results rs)) \<and>
         map tools_arg (follow_up_requests (messages s) message (zip tcs (zip results rs))) =
           replicate (length tcs) None"
      by blast
  qed
  from a b c show ?thesis by (intro conjI)
qed

theorem follow_up_request_and_reply_witness:
  "execute_tool order_call = Inr ''Order ORD124 is Delivered and will arrive by 2025-10-22.'' \<and>
   requests (snd (handle_tool_call scripted (tool_request [order_call]) order_call answers_nothing)) =
     requests answers_nothing @
       [\<lparr>model = ''gpt-5'',
         msgs = messages answers_nothing @
           [Obj (tool_request [order_call]),
            ToolDict (tc_id order_call)
              ''Order ORD124 is Delivered and will arrive by 2025-10-22.''],
         tools_arg = None\<rparr>] \<and>
   create scripted
     \<lparr>model = ''gpt-5'',
      msgs = messages answers_nothing @
        [Obj (tool_request [order_call]),
         ToolDict (tc_id order_call)
           ''Order ORD124 is Delivered and will arrive by 2025-10-22.''],
      tools_arg = None\<rparr> (world answers_nothing) =
     (Inr (\<lparr>content = None, tool_calls = None\<rparr> # []), []) \<and>
   fst (handle_tool_call scripted (tool_request [order_call]) order_call answers_nothing) = None \<and>
   display_messages
     (snd (handle_tool_call scripted (tool_request [order_call]) order_call answers_nothing)) =
     display_messages answers_nothing @
       [Dict ''assistant'' ''Order ORD124 is Delivered and will arrive by 2025-10-22.''] \<and>
   tool_loop scripted (tool_request [order_call, faq_call]) [order_call, faq_call] two_answers =
     (None, snd (tool_loop scripted (tool_request [order_call, faq_call])
                   [order_call, faq_call] two_answers)) \<and>
   (\<exists>results rs.
      length results = length [order_call, faq_call] \<and>
      length rs = length [order_call, faq_call] \<and>
      map execute_tool [order_call, faq_call] = map Inr results \<and>
      messages (snd (tool_loop scripted (tool_request [order_call, faq_call])
                   [order_call, faq_call] two_answers)) =
        messages two_answers @ map (Dict ''assistant'') rs \<and>
      requests (snd (tool_loop scripted (tool_request [order_call, faq_call])
                   [order_call, faq_call] two_answers)) =
        requests two_answers @
          follow_up_requests (messages two_answers) (tool_request [order_call, faq_call])
            (zip [order_call, faq_call] (zip results rs)) \<and>
      map tools_arg
        (follow_up_requests (messages two_answers) (tool_request [order_call, faq_call])
           (zip [order_call, faq_call] (zip results rs))) =
        replicate (length [order_call, faq_call]) None)"
proof -
  have x: "execute_tool order_call =
      Inr ''Order ORD124 is Delivered and will arrive by 2025-10-22.''"
    by code_simp
  have c: "create scripted
     \<lparr>model = ''gpt-5'',
      msgs = messages answers_nothing @
        [Obj (tool_request [order_call]),
         ToolDict (tc_id order_call)
           ''Order ORD124 is Delivered and will arrive by 2025-10-22.''],
      tools_arg = None\<rparr> (world answers_nothing) =
     (Inr (\<lparr>content = None, tool_calls = None\<rparr> # []), [])"
    by code_simp
  have l: "tool_loop scripted (tool_request [order_call, faq_call]) [order_call, faq_call]
      two_answers =
     (None, snd (tool_loop scripted (tool_request [order_call, faq_call])
                   [order_call, faq_call] two_answers))"
    by code_simp
  note r1 = follow_up_request_and_reply [THEN conjunct1, THEN mp, OF x]
  note r2 = follow_up_request_and_reply [THEN conjunct2, THEN conjunct1, THEN mp,
      OF conjI [OF x c]]
  note r3 = follow_up_request_and_reply [THEN conjunct2, THEN conjunct2, THEN mp, OF l]
  from r2 have f: "fst (handle_tool_call scripted (tool_request [order_call]) order_call
      answers_nothing) = None"
    by (rule conjunct1)
  from r2 have d: "display_messages
     (snd (handle_tool_call scripted (tool_request [order_call]) order_call answers_nothing)) =
     display_messages answers_nothing @
       [Dict ''assistant'' ''Order ORD124 is Delivered and will arrive by 2025-10-22.'']"
    by simp
  from x r1 c f d l r3 show ?thesis by (intro conjI)
qed

text \<open>
  C3, as amended. In a user turn that ends without an error and whose first answer carries
  N \<ge> 1 tool calls, each call is resolved in the order received and answered by a
  follow-up request of its own, whose last message is the tool-result message of that
  call; the turn appends exactly N assistant entries to each transcript, one per call,
  after the user's message. The tool-result message is part of the follow-up request
  only: neither transcript stores it, and the transcript gains no tool entry.
\<close>

theorem tool_turn_appends_one_reply_per_call:
  assumes "create env
             \<lparr>model = ''gpt-5'', msgs = messages s @ [Dict ''user'' ui], tools_arg = Some tools\<rparr>
             (world (turn_start env ui s)) = (Inr (m # ms), w)"
    and "requested (tool_calls m) = tcs"
    and "tcs \<noteq> []"
    and "errors_shown (user_turn env ui s) = errors_shown s"
  shows "\<exists>results rs.
     length results = length tcs \<and> length rs = length tcs \<and>
     map execute_tool tcs = map Inr results \<and>
     messages (user_turn env ui s) =
       messages s @ Dict ''user'' ui # map (Dict ''assistant'') rs \<and>
     display_messages (user_turn env ui s) =
       display_messages s @ Dict ''user'' ui # map (Dict ''assistant'') rs \<and>
     requests (user_turn env ui s) =
       requests s @
         \<lparr>model = ''gpt-5'', msgs = messages s @ [Dict ''user'' ui], tools_arg = Some tools\<rparr> #
         follow_up_requests (messages s @ [Dict ''user'' ui]) m (zip tcs (zip results rs)) \<and>
     map (\<lambda>q. last (msgs q))
         (follow_up_requests (messages s @ [Dict ''user'' ui]) m (zip tcs (zip results rs))) =
       map (\<lambda>(tc, result). ToolDict (tc_id tc) result) (zip tcs results) \<and>
     filter (\<lambda>x. role_of x = ''tool'') (messages (user_turn env ui s)) =
       filter (\<lambda>x. role_of x = ''tool'') (messages s)"
proof -
  let ?req = "\<lparr>model = ''gpt-5'', msgs = messages (turn_start env ui s), tools_arg = Some tools\<rparr>"
  let ?s1 = "snd (call_create env ?req (turn_start env ui s))"
  from assms(1) have f: "create env ?req (world (turn_start env ui s)) = (Inr (m # ms), w)"
    by simp
  from assms(2,3) have ne: "requested (tool_calls m) \<noteq> []" by simp
  from try_block_tool_calls [OF f ne] assms(2)
  have "try_block env (turn_start env ui s) = tool_loop env m tcs ?s1" by simp
  with user_turn_without_error [OF assms(4)]
  have "tool_loop env m tcs ?s1 = (None, user_turn env ui s)" by simp
  from tool_loop_ok [OF this] obtain results rs
    where l1: "length results = length tcs" and l2: "length rs = length tcs"
      and ex: "map execute_tool tcs = map Inr results"
      and ms: "messages (user_turn env ui s) = messages ?s1 @ map (Dict ''assistant'') rs"
      and ds: "display_messages (user_turn env ui s) =
          display_messages ?s1 @ map (Dict ''assistant'') rs"
      and rq: "requests (user_turn env ui s) =
          requests ?s1 @ follow_up_requests (messages ?s1) m (zip tcs (zip results rs))"
    by blast
  from ms have ms': "messages (user_turn env ui s) =
       messages s @ Dict ''user'' ui # map (Dict ''assistant'') rs"
    by simp
  from ds have ds': "display_messages (user_turn env ui s) =
       display_messages s @ Dict ''user'' ui # map (Dict ''assistant'') rs"
    by simp
  from rq have rq': "requests (user_turn env ui s) =
       requests s @
         \<lparr>model = ''gpt-5'', msgs = messages s @ [Dict ''user'' ui], tools_arg = Some tools\<rparr> #
         follow_up_requests (messages s @ [Dict ''user'' ui]) m (zip tcs (zip results rs))"
    by simp
  from l1 l2 have "length tcs = length results" and "length results = length rs"
    by simp_all
  then
  have "map (\<lambda>(tc, result, reply). ToolDict (tc_id tc) result) (zip tcs (zip results rs)) =
       map (\<lambda>(tc, result). ToolDict (tc_id tc) result) (zip tcs results)"
  proof (induction tcs results rs rule: list_induct3)
    case Nil
    show ?case by simp
  next
    case (Cons tc tcs result results reply rs)
    then show ?case by simp
  qed
  then have lm: "map (\<lambda>q. last (msgs q))
         (follow_up_requests (messages s @ [Dict ''user'' ui]) m (zip tcs (zip results rs))) =
       map (\<lambda>(tc, result). ToolDict (tc_id tc) result) (zip tcs results)"
    by (simp only: last_msgs_follow_up_requests)
  have "filter (\<lambda>x. role_of x = ''tool'') (map (Dict ''assistant'') rs) = []"
    by (induction rs) simp_all
  with ms' have nt: "filter (\<lambda>x. role_of x = ''tool'') (messages (user_turn env ui s)) =
       filter (\<lambda>x. role_of x = ''tool'') (messages s)"
    by simp
  from l1 l2 ex ms' ds' rq' lm nt show ?thesis by blast
qed

theorem tool_turn_appends_one_reply_per_call_witness:
  "create scripted
     \<lparr>model = ''gpt-5'', msgs = messages two_calls_two_answers @ [Dict ''user'' ''Where is ORD124?''],
      tools_arg = Some tools\<rparr>
     (world (turn_start scripted ''Where is ORD124?'' two_calls_two_answers)) =
     (Inr (tool_request [order_call, faq_call] # []),
      [text_reply ''Your order ORD124 was delivered.'',
       Inr [\<lparr>content = Some [], tool_calls = None\<rparr>]]) \<and>
   requested (tool_calls (tool_request [order_call, faq_call])) = [order_call, faq_call] \<and>
   [order_call, faq_call] \<noteq> [] \<and>
   errors_shown (user_turn scripted ''Where is ORD124?'' two_calls_two_answers) =
     errors_shown two_calls_two_answers \<and>
   display_messages (user_turn scripted ''Where is ORD124?'' two_calls_two_answers) =
     [Dict ''user'' ''Where is ORD124?'',
      Dict ''assistant'' ''Your order ORD124 was delivered.'',
      Dict ''assistant'' ''Refunds are available within 30 days of purchase.''] \<and>
   (\<exists>results rs.
     length results = length [order_call, faq_call] \<and> length rs = length [order_call, faq_call] \<and>
     map execute_tool [order_call, faq_call] = map Inr results \<and>
     messages (user_turn scripted ''Where is ORD124?'' two_calls_two_answers) =
       messages two_calls_two_answers @
         Dict ''user'' ''Where is ORD124?'' # map (Dict ''assistant'') rs \<and>
     display_messages (user_turn scripted ''Where is ORD124?'' two_calls_two_answers) =
       display_messages two_calls_two_answers @
         Dict ''user'' ''Where is ORD124?'' # map (Dict ''assistant'') rs \<and>
     requests (user_turn scripted ''Where is ORD124?'' two_calls_two_answers) =
       requests two_calls_two_answers @
         \<lparr>model = ''gpt-5'',
          msgs = messages two_calls_two_answers @ [Dict ''user'' ''Where is ORD124?''],
          tools_arg = Some tools\<rparr> #
         follow_up_requests (messages two_calls_two_answers @ [Dict ''user'' ''Where is ORD124?''])
           (tool_request [order_call, faq_call]) (zip [order_call, faq_call] (zip results rs)) \<and>
     map (\<lambda>q. last (msgs q))
         (follow_up_requests (messages two_calls_two_answers @ [Dict ''user'' ''Where is ORD124?''])
           (tool_request [order_call, faq_call]) (zip [order_call, faq_call] (zip results rs))) =
       map (\<lambda>(tc, result). ToolDict (tc_id tc) result) (zip [order_call, faq_call] results) \<and>
     filter (\<lambda>x. role_of x = ''tool'')
         (messages (user_turn scripted ''Where is ORD124?'' two_calls_two_answers)) =
       filter (\<lambda>x. role_of x = ''tool'') (messages two_calls_two_answers))"
proof -
  have h1: "create scripted
     \<lparr>model = ''gpt-5'', msgs = messages two_calls_two_answers @ [Dict ''user'' ''Where is ORD124?''],
      tools_arg = Some tools\<rparr>
     (world (turn_start scripted ''Where is ORD124?'' two_calls_two_answers)) =
     (Inr (tool_request [order_call, faq_call] # []),
      [text_reply ''Your order ORD124 was delivered.'',
       Inr [\<lparr>content = Some [], tool_calls = None\<rparr>]])"
    by code_simp
  have h2: "requested (tool_calls (tool_request [order_call, faq_call])) = [order_call, faq_call]"
    by (simp add: tool_request_def)
  have h3: "[order_call, faq_call] \<noteq> []"
    by simp
  have h4: "errors_shown (user_turn scripted ''Where is ORD124?'' two_calls_two_answers) =
     errors_shown two_calls_two_answers"
    by code_simp
  have d: "display_messages (user_turn scripted ''Where is ORD124?'' two_calls_two_answers) =
     [Dict ''user'' ''Where is ORD124?'',
      Dict ''assistant'' ''Your order ORD124 was delivered.'',
      Dict ''assistant'' ''Refunds are available within 30 days of purchase.'']"
    by code_simp
  note r = tool_turn_appends_one_reply_per_call [OF h1 h2 h3 h4]
  from h1 h2 h3 h4 d r show ?thesis by (intro conjI)
qed

theorem tool_result_in_transcript_counterexample:
  "requested (tool_calls (tool_request [order_call])) = [order_call] \<and>
   errors_shown (user_turn scripted ''Where is ORD124?'' one_call_one_answer) = [] \<and>
   messages (user_turn scripted ''Where is ORD124?'' one_call_one_answer) =
     initial_messages @
       [Dict ''user'' ''Where is ORD124?'', Dict ''assistant'' ''It was delivered.''] \<and>
   map role_of (messages (user_turn scripted ''Where is ORD124?'' one_call_one_answer)) =
     [''system'', ''user'', ''assistant'', ''user'', ''assistant''] \<and>
   last (msgs (last (requests (user_turn scripted ''Where is ORD124?'' one_call_one_answer)))) =
     ToolDict ''call_1'' ''Order ORD124 is Delivered and will arrive by 2025-10-22.'' \<and>
   display_messages (user_turn scripted ''Where is ORD124?'' one_call_no_answer) =
     [Dict ''user'' ''Where is ORD124?''] \<and>
   errors_shown (user_turn scripted ''Where is ORD124?'' one_call_no_answer) =
     [cross_mark @ '' API Error: Connection error.'']"
proof -
  have a: "requested (tool_calls (tool_request [order_call])) = [order_call]"
    by (simp add: tool_request_def)
  have b: "errors_shown (user_turn scripted ''Where is ORD124?'' one_call_one_answer) = []"
    by code_simp
  have c: "messages (user_turn scripted ''Where is ORD124?'' one_call_one_answer) =
     initial_messages @
       [Dict ''user'' ''Where is ORD124?'', Dict ''assistant'' ''It was delivered.'']"
    by code_simp
  have d: "map role_of (messages (user_turn scripted ''Where is ORD124?'' one_call_one_answer)) =
     [''system'', ''user'', ''assistant'', ''user'', ''assistant'']"
    by code_simp
  have e: "last (msgs (last (requests
       (user_turn scripted ''Where is ORD124?'' one_call_one_answer)))) =
     ToolDict ''call_1'' ''Order ORD124 is Delivered and will arrive by 2025-10-22.''"
    by code_simp
  have f: "display_messages (user_turn scripted ''Where is ORD124?'' one_call_no_answer) =
     [Dict ''user'' ''Where is ORD124?'']"
    by code_simp
  have g: "errors_shown (user_turn scripted ''Where is ORD124?'' one_call_no_answer) =
     [cross_mark @ '' API Error: Connection error.'']"
    by code_simp
  from a b c d e f g show ?thesis by (intro conjI)
qed

end
